theory Spec2Isabelle
  imports Complex_Main "HOL-Library.Product_Lexorder"
begin

section \<open>Data model of the Uniswap module\<close>

text \<open>
  Naming: a Python name with a leading underscore (\<^verbatim>\<open>_tx_swaps_to_trades\<close>) is written
  with the prefix \<open>u_\<close> (\<open>u_tx_swaps_to_trades\<close>), since an identifier cannot start
  with an underscore here. Python integers are \<open>int\<close>, strings are \<open>string\<close>.
\<close>

text \<open>
  The exceptions that the modelled code can raise: an index out of range of a list,
  the two division failures of the decimal arithmetic, and the failure of a remote query.
\<close>

datatype error = IndexError | DivisionByZero | InvalidOperation | RemoteError

text \<open>
  Modelled from the spec: class \<^verbatim>\<open>FVal\<close> (module \<^verbatim>\<open>rotkehlchen.fval\<close>) is not among the
  sources. The spec calls the amounts decimals, and says that the rate computation
  "divides by a zero amount" with no guard. \<^verbatim>\<open>FVal\<close> wraps a decimal number; its values
  are modelled as exact rationals. Comparison, addition and multiplication are those of
  the rationals; division raises for a zero divisor (\<open>DivisionByZero\<close> for a nonzero
  dividend, \<open>InvalidOperation\<close> for zero by zero), as the decimal division underneath does.
\<close>

type_synonym FVal = rat

definition ZERO :: FVal where
  "ZERO = 0"

definition fval_div :: "FVal \<Rightarrow> FVal \<Rightarrow> error + FVal" where
  "fval_div a b =
     (if b = 0 then (if a = 0 then Inl InvalidOperation else Inl DivisionByZero)
      else Inr (a / b))"

text \<open>
  The two asset classes, \<^verbatim>\<open>EthereumToken\<close> and \<^verbatim>\<open>UnknownEthereumToken\<close>, and their
  union (the type of the token fields of a swap and of a pool asset). The fields of the
  second class carry the prefix \<open>unk_\<close> to keep the two records apart.
\<close>

record EthereumToken =
  "identifier" :: string
  ethereum_address :: string
  name :: string
  decimals :: int

record UnknownEthereumToken =
  unk_ethereum_address :: string
  unk_symbol :: string
  unk_name :: string
  unk_decimals :: int

datatype token = Known EthereumToken | Unknown UnknownEthereumToken

fun token_ethereum_address :: "token \<Rightarrow> string" where
  "token_ethereum_address (Known t) = ethereum_address t"
| "token_ethereum_address (Unknown t) = unk_ethereum_address t"

datatype Location = EXTERNAL | UNISWAP

datatype TradeType = BUY | SELL | SETTLEMENT_BUY | SETTLEMENT_SELL

text \<open>The swap event \<^verbatim>\<open>AMMSwap\<close> and the derived trade \<^verbatim>\<open>AMMTrade\<close>.\<close>

record AMMSwap =
  tx_hash :: string
  log_index :: int
  address :: string
  from_address :: string
  to_address :: string
  timestamp :: int
  location :: Location
  token0 :: token
  token1 :: token
  amount0_in :: FVal
  amount1_in :: FVal
  amount0_out :: FVal
  amount1_out :: FVal

record AMMTrade =
  trade_type :: TradeType
  base_asset :: token
  quote_asset :: token
  amount :: FVal
  rate :: FVal
  swaps :: "AMMSwap list"
  trade_index :: int

section \<open>Trade derivation\<close>

text \<open>
  \<^verbatim>\<open>add_trades_from_swaps\<close>: the loop over the quote legs. Each pass computes
  \<^verbatim>\<open>rate = bought_amount / sold_amount\<close>, appends one trade and increments the index;
  a failing division leaves the loop with the exception.
\<close>

fun add_trades_loop ::
  "AMMSwap list \<Rightarrow> token \<Rightarrow> FVal \<Rightarrow> (token \<times> FVal) list \<Rightarrow> AMMTrade list \<Rightarrow> int
    \<Rightarrow> error + AMMTrade list" where
  "add_trades_loop sws tok bought_amount [] trades trade_idx = Inr trades"
| "add_trades_loop sws tok bought_amount (entry # quote_assets) trades trade_idx =
     (let quote = fst entry;
          sold_amount = snd entry
      in case fval_div bought_amount sold_amount of
           Inl e \<Rightarrow> Inl e
         | Inr r \<Rightarrow>
             add_trades_loop sws tok bought_amount quote_assets
               (trades @ [\<lparr>trade_type = BUY, base_asset = tok, quote_asset = quote,
                           amount = bought_amount, rate = r, swaps = sws,
                           trade_index = trade_idx\<rparr>])
               (trade_idx + 1))"

definition add_trades_from_swaps ::
  "AMMSwap list \<Rightarrow> AMMTrade list \<Rightarrow> bool \<Rightarrow> (token \<times> FVal) list \<Rightarrow> FVal \<Rightarrow> token \<Rightarrow> int
    \<Rightarrow> error + AMMTrade list" where
  "add_trades_from_swaps sws trades both_in quote_assets token_amount tok trade_idx =
     (let bought_amount = (if both_in then token_amount / 2 else token_amount)
      in add_trades_loop sws tok bought_amount quote_assets trades trade_idx)"

text \<open>
  The quote legs chosen by \<^verbatim>\<open>_tx_swaps_to_trades\<close> from the first swap \<open>s0\<close> of the
  group (the \<^verbatim>\<open>if both_in / elif / else\<close> of the source).
\<close>

definition tx_quote_assets :: "AMMSwap \<Rightarrow> bool \<Rightarrow> bool \<Rightarrow> (token \<times> FVal) list" where
  "tx_quote_assets s0 both_in both_out =
     (if both_in then
        [(token0 s0, if \<not> both_out then amount0_in s0 else amount0_in s0 / 2),
         (token1 s0, if \<not> both_out then amount1_in s0 else amount1_in s0 / 2)]
      else if amount0_in s0 > ZERO then [(token0 s0, amount0_in s0)]
      else [(token1 s0, amount1_in s0)])"

text \<open>
  \<^verbatim>\<open>_tx_swaps_to_trades\<close>. \<^verbatim>\<open>swaps[0]\<close> and \<^verbatim>\<open>swaps[-1]\<close> raise \<open>IndexError\<close> on the
  empty list. After the first branch the index advances by the length of the whole
  trade list.
\<close>

definition u_tx_swaps_to_trades :: "AMMSwap list \<Rightarrow> error + AMMTrade list" where
  "u_tx_swaps_to_trades sws =
     (if sws = [] then Inl IndexError
      else
        let s0 = hd sws;
            sl = last sws;
            both_in = (amount0_in s0 > ZERO \<and> amount1_in s0 > ZERO);
            both_out = (amount0_out sl > ZERO \<and> amount1_out sl > ZERO);
            quote_assets = tx_quote_assets s0 both_in both_out;
            r0 = (if amount0_out sl > ZERO
                  then (case add_trades_from_swaps sws [] both_in quote_assets
                               (amount0_out sl) (token0 sl) 0 of
                          Inl e \<Rightarrow> Inl e
                        | Inr trades \<Rightarrow> Inr (trades, 0 + int (length trades)))
                  else Inr ([], 0))
        in case r0 of
             Inl e \<Rightarrow> Inl e
           | Inr (trades, trade_idx) \<Rightarrow>
               if amount1_out sl > ZERO
               then add_trades_from_swaps sws trades both_in quote_assets
                      (amount1_out sl) (token1 sl) trade_idx
               else Inr trades)"

section \<open>Grouping swaps by transaction\<close>

text \<open>
  \<^verbatim>\<open>swaps.sort(key=lambda trade: (trade.timestamp, -trade.log_index), reverse=True)\<close>:
  a stable sort in descending order of the key. A stable descending sort is the reverse
  of the stable ascending sort of the reversed list, so that elements with equal keys
  keep their order. Pairs are compared lexicographically.
\<close>

definition swaps_sort :: "AMMSwap list \<Rightarrow> AMMSwap list" where
  "swaps_sort sws =
     rev (sort_key (\<lambda>trade. (timestamp trade, - log_index trade)) (rev sws))"

text \<open>
  The grouping loop of \<^verbatim>\<open>swaps_to_trades\<close>, with the function that turns one group
  into trades as the parameter \<open>f\<close>. The first equation is the code after the loop
  (\<^verbatim>\<open>if len(current_swaps) != 0\<close>); the second is one pass of the loop body.
\<close>

fun swaps_loop ::
  "(AMMSwap list \<Rightarrow> error + 'b list) \<Rightarrow> AMMSwap list \<Rightarrow> string \<Rightarrow> AMMSwap list \<Rightarrow> 'b list
    \<Rightarrow> error + 'b list" where
  "swaps_loop f [] last_tx_hash current_swaps trades =
     (if length current_swaps \<noteq> 0
      then (case f current_swaps of Inl e \<Rightarrow> Inl e | Inr ts \<Rightarrow> Inr (trades @ ts))
      else Inr trades)"
| "swaps_loop f (swap # rest) last_tx_hash current_swaps trades =
     (if tx_hash swap \<noteq> last_tx_hash
      then (case f current_swaps of
              Inl e \<Rightarrow> Inl e
            | Inr ts \<Rightarrow> swaps_loop f rest (tx_hash swap) ([] @ [swap]) (trades @ ts))
      else swaps_loop f rest (tx_hash swap) (current_swaps @ [swap]) trades)"

definition swaps_to_trades_via ::
  "(AMMSwap list \<Rightarrow> error + 'b list) \<Rightarrow> AMMSwap list \<Rightarrow> error + 'b list" where
  "swaps_to_trades_via f sws =
     (if sws = [] then Inr []
      else let sorted_swaps = swaps_sort sws
           in swaps_loop f sorted_swaps (tx_hash (hd sorted_swaps)) [] [])"

text \<open>\<^verbatim>\<open>swaps_to_trades\<close> itself: every group goes to \<^verbatim>\<open>_tx_swaps_to_trades\<close>.\<close>

definition swaps_to_trades :: "AMMSwap list \<Rightarrow> error + AMMTrade list" where
  "swaps_to_trades = swaps_to_trades_via u_tx_swaps_to_trades"

text \<open>
  The same loop with a callee that only records its argument: the result is the list
  of the groups, in the order in which the loop hands them over.
\<close>

definition tx_groups :: "AMMSwap list \<Rightarrow> error + AMMSwap list list" where
  "tx_groups = swaps_to_trades_via (\<lambda>group. Inr [group])"

text \<open>Calling \<open>f\<close> on a list of groups in turn, stopping at the first exception.\<close>

fun run_groups ::
  "(AMMSwap list \<Rightarrow> error + 'b list) \<Rightarrow> AMMSwap list list \<Rightarrow> 'b list \<Rightarrow> error + 'b list" where
  "run_groups f [] trades = Inr trades"
| "run_groups f (g # gs) trades =
     (case f g of Inl e \<Rightarrow> Inl e | Inr ts \<Rightarrow> run_groups f gs (trades @ ts))"

section \<open>Example data\<close>

definition example_token0 :: token where
  "example_token0 = Known \<lparr>identifier = ''DAI'', ethereum_address = ''0xdai'',
     name = ''Dai'', decimals = 18\<rparr>"

definition example_token1 :: token where
  "example_token1 = Unknown \<lparr>unk_ethereum_address = ''0xfoo'', unk_symbol = ''FOO'',
     unk_name = ''Foo'', unk_decimals = 18\<rparr>"

definition example_swap ::
  "string \<Rightarrow> int \<Rightarrow> int \<Rightarrow> FVal \<Rightarrow> FVal \<Rightarrow> FVal \<Rightarrow> FVal \<Rightarrow> AMMSwap" where
  "example_swap tx ts li a0i a1i a0o a1o =
     \<lparr>tx_hash = tx, log_index = li, address = ''0xuser'', from_address = ''0xfrom'',
      to_address = ''0xto'', timestamp = ts, location = UNISWAP,
      token0 = example_token0, token1 = example_token1,
      amount0_in = a0i, amount1_in = a1i, amount0_out = a0o, amount1_out = a1o\<rparr>"

section \<open>Balances and prices\<close>

text \<open>
  \<^verbatim>\<open>Balance\<close>, \<^verbatim>\<open>LiquidityPoolAsset\<close> and \<^verbatim>\<open>LiquidityPool\<close>. Field names that
  other records already use are prefixed: \<open>balance_amount\<close> is \<^verbatim>\<open>Balance.amount\<close>,
  \<open>pool_address\<close> and \<open>pool_user_balance\<close> are \<^verbatim>\<open>LiquidityPool.address\<close> and
  \<^verbatim>\<open>LiquidityPool.user_balance\<close>.
\<close>

record Balance =
  balance_amount :: FVal
  usd_value :: FVal

record LiquidityPoolAsset =
  asset :: token
  total_amount :: FVal
  user_balance :: Balance
  usd_price :: FVal

record LiquidityPool =
  pool_address :: string
  assets :: "LiquidityPoolAsset list"
  total_supply :: FVal
  pool_user_balance :: Balance

text \<open>The dictionaries \<^verbatim>\<open>AssetPrice\<close> and \<^verbatim>\<open>AddressBalances\<close>, keyed by address.\<close>

type_synonym AssetPrice = "string \<rightharpoonup> FVal"

type_synonym AddressBalances = "string \<rightharpoonup> LiquidityPool list"

text \<open>
  \<^verbatim>\<open>_get_known_asset_price\<close>. The set \<^verbatim>\<open>known_assets\<close> is given as the list of its
  elements in the order of the iteration. The loop fills the price dictionary and adds
  to \<^verbatim>\<open>unknown_assets\<close> (a set the caller shares); it never writes to
  \<^verbatim>\<open>known_assets\<close>. The result is the returned dictionary together with both sets
  as they are after the call.
\<close>

fun known_asset_price_loop ::
  "(EthereumToken \<Rightarrow> FVal) \<Rightarrow> EthereumToken list \<Rightarrow> AssetPrice \<Rightarrow> UnknownEthereumToken set
    \<Rightarrow> AssetPrice \<times> UnknownEthereumToken set" where
  "known_asset_price_loop price_query [] asset_price unknown_assets =
     (asset_price, unknown_assets)"
| "known_asset_price_loop price_query (known_asset # rest) asset_price unknown_assets =
     (let asset_usd_price = price_query known_asset
      in if asset_usd_price \<noteq> ZERO
         then known_asset_price_loop price_query rest
                (asset_price(ethereum_address known_asset \<mapsto> asset_usd_price))
                unknown_assets
         else
           let unknown_asset =
                 \<lparr>unk_ethereum_address = ethereum_address known_asset,
                  unk_symbol = identifier known_asset,
                  unk_name = name known_asset,
                  unk_decimals = decimals known_asset\<rparr>
           in known_asset_price_loop price_query rest asset_price
                (insert unknown_asset unknown_assets))"

definition u_get_known_asset_price ::
  "EthereumToken list \<Rightarrow> UnknownEthereumToken set \<Rightarrow> (EthereumToken \<Rightarrow> FVal)
    \<Rightarrow> AssetPrice \<times> EthereumToken list \<times> UnknownEthereumToken set" where
  "u_get_known_asset_price known_assets unknown_assets price_query =
     (let (asset_price, unknown_assets') =
            known_asset_price_loop price_query known_assets Map.empty unknown_assets
      in (asset_price, known_assets, unknown_assets'))"

text \<open>
  \<^verbatim>\<open>_update_assets_prices_in_address_balances\<close>. The price of an asset is
  \<^verbatim>\<open>known_asset_price.get(address, unknown_asset_price.get(address, Price(ZERO)))\<close>:
  the second dictionary is consulted only when the first has no entry for the address.
\<close>

definition asset_usd_price_lookup :: "AssetPrice \<Rightarrow> AssetPrice \<Rightarrow> string \<Rightarrow> FVal" where
  "asset_usd_price_lookup known_asset_price unknown_asset_price asset_ethereum_address =
     (case known_asset_price asset_ethereum_address of
        Some p \<Rightarrow> p
      | None \<Rightarrow>
          (case unknown_asset_price asset_ethereum_address of
             Some p \<Rightarrow> p
           | None \<Rightarrow> ZERO))"

text \<open>The update of one pool asset (the body of the innermost loop up to the sum).\<close>

definition update_asset_price ::
  "AssetPrice \<Rightarrow> AssetPrice \<Rightarrow> LiquidityPoolAsset \<Rightarrow> LiquidityPoolAsset" where
  "update_asset_price known_asset_price unknown_asset_price a =
     (let asset_ethereum_address = token_ethereum_address (asset a);
          asset_usd_price =
            asset_usd_price_lookup known_asset_price unknown_asset_price
              asset_ethereum_address
      in if asset_usd_price \<noteq> ZERO
         then a\<lparr>usd_price := asset_usd_price,
                user_balance := (user_balance a)
                  \<lparr>usd_value := balance_amount (user_balance a) * asset_usd_price\<rparr>\<rparr>
         else a)"

text \<open>
  The loop over the assets of one pool: each asset is updated and its USD value is
  added to the running total \<^verbatim>\<open>total_user_balance\<close>.
\<close>

fun update_assets_loop ::
  "AssetPrice \<Rightarrow> AssetPrice \<Rightarrow> LiquidityPoolAsset list \<Rightarrow> FVal
    \<Rightarrow> LiquidityPoolAsset list \<times> FVal" where
  "update_assets_loop kp up [] total_user_balance = ([], total_user_balance)"
| "update_assets_loop kp up (a # rest) total_user_balance =
     (let a' = update_asset_price kp up a;
          (rest', total') =
            update_assets_loop kp up rest
              (total_user_balance + usd_value (user_balance a'))
      in (a' # rest', total'))"

definition update_pool_price ::
  "AssetPrice \<Rightarrow> AssetPrice \<Rightarrow> LiquidityPool \<Rightarrow> LiquidityPool" where
  "update_pool_price kp up lp =
     (let (assets', total_user_balance) = update_assets_loop kp up (assets lp) 0
      in lp\<lparr>assets := assets',
            pool_user_balance := (pool_user_balance lp)\<lparr>usd_value := total_user_balance\<rparr>\<rparr>)"

text \<open>
  The function updates the pools in place and returns nothing; the model returns the
  dictionary as it is after the call.
\<close>

definition u_update_assets_prices_in_address_balances ::
  "AddressBalances \<Rightarrow> AssetPrice \<Rightarrow> AssetPrice \<Rightarrow> AddressBalances" where
  "u_update_assets_prices_in_address_balances address_balances known_asset_price
       unknown_asset_price =
     (\<lambda>addr. map_option (map (update_pool_price known_asset_price unknown_asset_price))
        (address_balances addr))"

definition example_dai :: EthereumToken where
  "example_dai = \<lparr>identifier = ''DAI'', ethereum_address = ''0xdai'', name = ''Dai'',
     decimals = 18\<rparr>"

definition example_weth :: EthereumToken where
  "example_weth = \<lparr>identifier = ''WETH'', ethereum_address = ''0xweth'',
     name = ''Wrapped Ether'', decimals = 18\<rparr>"

definition example_price_query :: "EthereumToken \<Rightarrow> FVal" where
  "example_price_query k = (if identifier k = ''WETH'' then 2 else 0)"

definition example_pool :: LiquidityPool where
  "example_pool =
     \<lparr>pool_address = ''0xpool'',
      assets =
        [\<lparr>asset = Known example_weth, total_amount = 100,
          user_balance = \<lparr>balance_amount = 3, usd_value = 0\<rparr>, usd_price = 0\<rparr>,
         \<lparr>asset = example_token1, total_amount = 50,
          user_balance = \<lparr>balance_amount = 5, usd_value = 0\<rparr>, usd_price = 0\<rparr>],
      total_supply = 10,
      pool_user_balance = \<lparr>balance_amount = 1, usd_value = 0\<rparr>\<rparr>"

definition example_address_balances :: AddressBalances where
  "example_address_balances = [''0xuser'' \<mapsto> [example_pool]]"

definition example_known_price :: AssetPrice where
  "example_known_price = [''0xweth'' \<mapsto> 2]"

definition example_unknown_price :: AssetPrice where
  "example_unknown_price = [''0xfoo'' \<mapsto> 1 / 2]"

section \<open>Paginated subgraph queries\<close>

text \<open>
  The three query loops (\<^verbatim>\<open>_get_balances_graph\<close>, \<^verbatim>\<open>_get_trades_graph_for_address\<close>
  and \<^verbatim>\<open>_get_unknown_asset_price_graph\<close>) have the same shape: query with the current
  \<^verbatim>\<open>offset\<close>, handle every record of the page, leave the loop when the page has fewer
  than \<^verbatim>\<open>GRAPH_QUERY_LIMIT\<close> records, otherwise add \<^verbatim>\<open>GRAPH_QUERY_LIMIT\<close> to the
  offset and repeat. The constant \<^verbatim>\<open>GRAPH_QUERY_LIMIT\<close> is declared outside the
  sources and is the parameter \<open>limit\<close>. The subgraph is a function from the parameter
  values of a query to a page of records or to the exception of a failed query; the
  records are given decoded (addresses in checksum form, numbers as numbers, tokens
  resolved). A loop that never meets a short page does not return: its value is
  \<open>None\<close>. Besides the outcome, the model returns the offsets of the queries that
  were issued, in order.
\<close>

text \<open>Handling the records of one page in turn, stopping at the first exception.\<close>

fun fold_err :: "('a \<Rightarrow> 'r \<Rightarrow> error + 'a) \<Rightarrow> 'r list \<Rightarrow> 'a \<Rightarrow> error + 'a" where
  "fold_err step [] acc = Inr acc"
| "fold_err step (r # rs) acc =
     (case step acc r of Inl e \<Rightarrow> Inl e | Inr acc' \<Rightarrow> fold_err step rs acc')"

partial_function (option) graph_query_loop ::
  "(int \<Rightarrow> error + 'r list) \<Rightarrow> int \<Rightarrow> ('a \<Rightarrow> 'r \<Rightarrow> error + 'a) \<Rightarrow> int \<Rightarrow> int list \<Rightarrow> 'a
    \<Rightarrow> (int list \<times> (error + 'a)) option" where
  "graph_query_loop query limit step offset offsets acc =
     (case query offset of
        Inl e \<Rightarrow> Some (offsets @ [offset], Inl e)
      | Inr result_data \<Rightarrow>
          (case fold_err step result_data acc of
             Inl e \<Rightarrow> Some (offsets @ [offset], Inl e)
           | Inr acc' \<Rightarrow>
               if int (length result_data) < limit
               then Some (offsets @ [offset], Inr acc')
               else graph_query_loop query limit step (offset + limit)
                      (offsets @ [offset]) acc'))"

declare graph_query_loop.simps [code]

text \<open>\<^verbatim>\<open>str.lower()\<close> on the ASCII strings that addresses are.\<close>

definition char_lower :: "char \<Rightarrow> char" where
  "char_lower c =
     (let n = (of_char c :: nat) in if 65 \<le> n \<and> n \<le> 90 then char_of (n + 32) else c)"

definition str_lower :: "string \<Rightarrow> string" where
  "str_lower s = map char_lower s"

subsection \<open>Token prices of the day\<close>

record TokenDayData =
  tdd_token_id :: string
  tdd_priceUSD :: FVal

definition price_step :: "AssetPrice \<Rightarrow> TokenDayData \<Rightarrow> error + AssetPrice" where
  "price_step asset_price tdd = Inr (asset_price(tdd_token_id tdd \<mapsto> tdd_priceUSD tdd))"

text \<open>
  \<^verbatim>\<open>_get_unknown_asset_price_graph\<close>. The set of unknown assets is given as the list of
  its elements; \<open>today_epoch\<close> is the start of the current day, read from the clock
  by the source. The query receives the parameter values \<^verbatim>\<open>limit\<close>, \<^verbatim>\<open>offset\<close>,
  \<^verbatim>\<open>token_ids\<close> and \<^verbatim>\<open>datetime\<close>.
\<close>

definition u_get_unknown_asset_price_graph ::
  "UnknownEthereumToken list
    \<Rightarrow> (int \<Rightarrow> int \<Rightarrow> string list \<Rightarrow> int \<Rightarrow> error + TokenDayData list) \<Rightarrow> int \<Rightarrow> int
    \<Rightarrow> (int list \<times> (error + AssetPrice)) option" where
  "u_get_unknown_asset_price_graph unknown_assets graph_query today_epoch limit =
     (let unknown_assets_addresses = map unk_ethereum_address unknown_assets;
          unknown_assets_addresses_lower = map str_lower unknown_assets_addresses
      in graph_query_loop
           (\<lambda>offset. graph_query limit offset unknown_assets_addresses_lower today_epoch)
           limit price_step 0 [] Map.empty)"

subsection \<open>Swaps of an address\<close>

text \<open>
  One swap as the subgraph returns it, and its conversion to \<^verbatim>\<open>AMMSwap\<close>; the
  transaction hash is the part of the swap id before the first \<^verbatim>\<open>-\<close>.
\<close>

record GraphSwap =
  swap_id :: string
  swap_logIndex :: int
  swap_sender :: string
  swap_to :: string
  swap_timestamp :: int
  swap_token0 :: token
  swap_token1 :: token
  swap_amount0In :: FVal
  swap_amount1In :: FVal
  swap_amount0Out :: FVal
  swap_amount1Out :: FVal

definition to_amm_swap :: "string \<Rightarrow> GraphSwap \<Rightarrow> AMMSwap" where
  "to_amm_swap addr swap =
     \<lparr>tx_hash = takeWhile (\<lambda>c. c \<noteq> CHR ''-'') (swap_id swap),
      log_index = swap_logIndex swap,
      address = addr,
      from_address = swap_sender swap,
      to_address = swap_to swap,
      timestamp = swap_timestamp swap,
      location = UNISWAP,
      token0 = swap_token0 swap,
      token1 = swap_token1 swap,
      amount0_in = swap_amount0In swap,
      amount1_in = swap_amount1In swap,
      amount0_out = swap_amount0Out swap,
      amount1_out = swap_amount1Out swap\<rparr>"

text \<open>
  One record of a page is the list of the swaps of one transaction; its trades are
  appended to the result.
\<close>

definition trades_step :: "string \<Rightarrow> AMMTrade list \<Rightarrow> GraphSwap list \<Rightarrow> error + AMMTrade list" where
  "trades_step addr trades entry =
     (let sws = map (to_amm_swap addr) entry
      in case u_tx_swaps_to_trades sws of
           Inl e \<Rightarrow> Inl e
         | Inr ts \<Rightarrow> Inr (trades @ ts))"

text \<open>
  \<^verbatim>\<open>_get_trades_graph_for_address\<close>. The query receives \<^verbatim>\<open>limit\<close>, \<^verbatim>\<open>offset\<close>,
  \<^verbatim>\<open>address\<close>, \<^verbatim>\<open>start_ts\<close> and \<^verbatim>\<open>end_ts\<close>.
\<close>

definition u_get_trades_graph_for_address ::
  "(int \<Rightarrow> int \<Rightarrow> string \<Rightarrow> int \<Rightarrow> int \<Rightarrow> error + GraphSwap list list) \<Rightarrow> int
    \<Rightarrow> string \<Rightarrow> int \<Rightarrow> int \<Rightarrow> (int list \<times> (error + AMMTrade list)) option" where
  "u_get_trades_graph_for_address graph_query limit addr start_ts end_ts =
     graph_query_loop
       (\<lambda>offset. graph_query limit offset (str_lower addr) start_ts end_ts)
       limit (trades_step addr) 0 [] []"

subsection \<open>Liquidity positions\<close>

record GraphLiquidityPosition =
  lp_user_id :: string
  lp_liquidityTokenBalance :: FVal
  lp_pair_id :: string
  lp_pair_totalSupply :: FVal
  lp_pair_reserve0 :: FVal
  lp_pair_reserve1 :: FVal
  lp_pair_token0 :: token
  lp_pair_token1 :: token

record ProtocolBalance =
  address_balances :: AddressBalances
  known_assets :: "EthereumToken set"
  unknown_assets :: "UnknownEthereumToken set"

text \<open>
  The body of \<^verbatim>\<open>for token in token0, token1\<close>: the asset is classified, its share
  \<^verbatim>\<open>user_lp_balance / lp_total_supply * asset_total_amount\<close> is computed and the pool
  asset is appended. A new \<^verbatim>\<open>Balance\<close> has \<^verbatim>\<open>usd_value\<close> zero and a new pool asset
  has \<^verbatim>\<open>usd_price\<close> zero.
\<close>

definition pool_asset_step ::
  "FVal \<Rightarrow> FVal
    \<Rightarrow> EthereumToken set \<times> UnknownEthereumToken set \<times> LiquidityPoolAsset list
    \<Rightarrow> token \<times> FVal
    \<Rightarrow> error + EthereumToken set \<times> UnknownEthereumToken set \<times> LiquidityPoolAsset list" where
  "pool_asset_step user_lp_balance lp_total_supply st tok_amount =
     (let (known, unknown, liquidity_pool_assets) = st;
          (tok, asset_total_amount) = tok_amount;
          (known', unknown') =
            (case tok of
               Known t \<Rightarrow> (insert t known, unknown)
             | Unknown t \<Rightarrow> (known, insert t unknown))
      in case fval_div user_lp_balance lp_total_supply of
           Inl e \<Rightarrow> Inl e
         | Inr share \<Rightarrow>
             Inr (known', unknown',
                  liquidity_pool_assets @
                    [\<lparr>asset = tok, total_amount = asset_total_amount,
                      user_balance =
                        \<lparr>balance_amount = share * asset_total_amount, usd_value = ZERO\<rparr>,
                      usd_price = ZERO\<rparr>]))"

text \<open>
  The body of \<^verbatim>\<open>for lp in result_data\<close>: the pool is built from the two tokens and
  appended to the list of the user's pools (\<^verbatim>\<open>address_balances\<close> is a
  \<^verbatim>\<open>defaultdict(list)\<close>).
\<close>

definition balances_step ::
  "AddressBalances \<times> EthereumToken set \<times> UnknownEthereumToken set \<Rightarrow> GraphLiquidityPosition
    \<Rightarrow> error + AddressBalances \<times> EthereumToken set \<times> UnknownEthereumToken set" where
  "balances_step st lp =
     (let (balances, known, unknown) = st;
          user_address = lp_user_id lp;
          user_lp_balance = lp_liquidityTokenBalance lp;
          lp_address = lp_pair_id lp;
          lp_total_supply = lp_pair_totalSupply lp
      in case fold_err (pool_asset_step user_lp_balance lp_total_supply)
                [(lp_pair_token0 lp, lp_pair_reserve0 lp),
                 (lp_pair_token1 lp, lp_pair_reserve1 lp)]
                (known, unknown, []) of
           Inl e \<Rightarrow> Inl e
         | Inr (known', unknown', liquidity_pool_assets) \<Rightarrow>
             let liquidity_pool =
                   \<lparr>pool_address = lp_address, assets = liquidity_pool_assets,
                    total_supply = lp_total_supply,
                    pool_user_balance =
                      \<lparr>balance_amount = user_lp_balance, usd_value = ZERO\<rparr>\<rparr>
             in Inr (balances(user_address \<mapsto>
                        (case balances user_address of None \<Rightarrow> [] | Some pools \<Rightarrow> pools)
                        @ [liquidity_pool]),
                     known', unknown'))"

definition to_protocol_balance ::
  "AddressBalances \<times> EthereumToken set \<times> UnknownEthereumToken set \<Rightarrow> ProtocolBalance" where
  "to_protocol_balance st =
     (let (balances, known, unknown) = st
      in \<lparr>address_balances = balances, known_assets = known, unknown_assets = unknown\<rparr>)"

text \<open>
  \<^verbatim>\<open>_get_balances_graph\<close>. The query receives \<^verbatim>\<open>limit\<close>, \<^verbatim>\<open>offset\<close> and
  \<^verbatim>\<open>addresses\<close> (the parameter \<^verbatim>\<open>balance\<close> is the constant \<^verbatim>\<open>'0'\<close>).
\<close>

definition u_get_balances_graph ::
  "string list \<Rightarrow> (int \<Rightarrow> int \<Rightarrow> string list \<Rightarrow> error + GraphLiquidityPosition list) \<Rightarrow> int
    \<Rightarrow> (int list \<times> (error + ProtocolBalance)) option" where
  "u_get_balances_graph addresses graph_query limit =
     (let addresses_lower = map str_lower addresses
      in case graph_query_loop (\<lambda>offset. graph_query limit offset addresses_lower)
                limit balances_step 0 [] (Map.empty, {}, {}) of
           None \<Rightarrow> None
         | Some (offsets, Inl e) \<Rightarrow> Some (offsets, Inl e)
         | Some (offsets, Inr st) \<Rightarrow> Some (offsets, Inr (to_protocol_balance st)))"

subsection \<open>What short-page pagination means\<close>

text \<open>
  \<open>first_short_page query limit k\<close>: the queries at the offsets \<open>0, limit, ...,
  k * limit\<close> all succeed, the first \<open>k\<close> pages are not short and the page at
  \<open>k * limit\<close> is. \<open>fetched_records\<close> are the records of these pages in order, and
  \<open>page_offsets\<close> are these offsets.
\<close>

definition first_short_page :: "(int \<Rightarrow> error + 'r list) \<Rightarrow> int \<Rightarrow> nat \<Rightarrow> bool" where
  "first_short_page query limit k \<longleftrightarrow>
     list_all (\<lambda>j. case query (int j * limit) of
                      Inl e \<Rightarrow> False
                    | Inr page \<Rightarrow> \<not> int (length page) < limit) [0..<k]
     \<and> (case query (int k * limit) of
          Inl e \<Rightarrow> False
        | Inr page \<Rightarrow> int (length page) < limit)"

definition fetched_records :: "(int \<Rightarrow> error + 'r list) \<Rightarrow> int \<Rightarrow> nat \<Rightarrow> 'r list" where
  "fetched_records query limit k =
     concat (map (\<lambda>j. case query (int j * limit) of Inl e \<Rightarrow> [] | Inr page \<Rightarrow> page)
               [0..<Suc k])"

definition page_offsets :: "int \<Rightarrow> nat \<Rightarrow> int list" where
  "page_offsets limit k = map (\<lambda>j. int j * limit) [0..<Suc k]"

text \<open>
  \<open>pagination_outcome query limit handle k\<close> is the way in which the pass of the loop
  at the offset \<open>k * limit\<close> ends, \<open>handle\<close> giving the result of handling a list of
  records: the exception of the query; or the exception raised by a record; or, for a
  short page, the result built from all the records fetched so far; or \<open>None\<close>, when
  the page is not short and the loop goes on.
\<close>

definition pagination_outcome ::
  "(int \<Rightarrow> error + 'r list) \<Rightarrow> int \<Rightarrow> ('r list \<Rightarrow> error + 'res) \<Rightarrow> nat
    \<Rightarrow> (error + 'res) option" where
  "pagination_outcome query limit handle k =
     (case query (int k * limit) of
        Inl e \<Rightarrow> Some (Inl e)
      | Inr page \<Rightarrow>
          (case handle (fetched_records query limit k) of
             Inl e \<Rightarrow> Some (Inl e)
           | Inr res \<Rightarrow> if int (length page) < limit then Some (Inr res) else None))"

text \<open>
  The invariant of the loop started at the offset \<open>off\<close> with the accumulator
  \<open>acc\<close>: a returned value comes from the first pass that does not go on.
\<close>

definition loop_run ::
  "(int \<Rightarrow> error + 'r list) \<Rightarrow> int \<Rightarrow> ('a \<Rightarrow> 'r \<Rightarrow> error + 'a) \<Rightarrow> int \<Rightarrow> int list \<Rightarrow> 'a
    \<Rightarrow> (int list \<times> (error + 'a)) \<Rightarrow> bool" where
  "loop_run query limit step off offs acc y \<longleftrightarrow>
     (\<exists>k. list_all (\<lambda>j. pagination_outcome (\<lambda>o'. query (off + o')) limit
                            (\<lambda>rs. fold_err step rs acc) j = None) [0..<k]
        \<and> pagination_outcome (\<lambda>o'. query (off + o')) limit (\<lambda>rs. fold_err step rs acc) k
            = Some (snd y)
        \<and> fst y = offs @ map ((+) off) (page_offsets limit k))"

text \<open>
  \<open>short_page_pagination result query limit handle\<close> says that \<open>result\<close> is the
  outcome of a short-page pagination over \<open>query\<close> whose records are handled as
  \<open>handle\<close> says: (1) if the pass at \<open>k * limit\<close> is the first that does not go on,
  the loop returns what that pass ends with, having queried exactly the offsets
  \<open>0, limit, ..., k * limit\<close>; in particular it returns normally when that page is
  short, with the result of handling every record of every fetched page; (2) the loop
  returns only in this way; (3) when there is a first short page, the loop returns;
  (4) when every pass goes on, the loop does not return.
\<close>

definition short_page_pagination ::
  "(int list \<times> (error + 'res)) option \<Rightarrow> (int \<Rightarrow> error + 'r list) \<Rightarrow> int
    \<Rightarrow> ('r list \<Rightarrow> error + 'res) \<Rightarrow> bool" where
  "short_page_pagination result query limit handle \<longleftrightarrow>
     (\<forall>k out. list_all (\<lambda>j. pagination_outcome query limit handle j = None) [0..<k]
          \<and> pagination_outcome query limit handle k = Some out
        \<longrightarrow> result = Some (page_offsets limit k, out))
     \<and> (\<forall>offs out. result = Some (offs, out) \<longrightarrow>
          (\<exists>k. list_all (\<lambda>j. pagination_outcome query limit handle j = None) [0..<k]
             \<and> pagination_outcome query limit handle k = Some out
             \<and> offs = page_offsets limit k))
     \<and> ((\<exists>k. first_short_page query limit k) \<longrightarrow> result \<noteq> None)
     \<and> ((\<forall>k. pagination_outcome query limit handle k = None) \<longrightarrow> result = None)"

subsection \<open>The results of the three loops, record by record\<close>

text \<open>
  What each loop builds from a list of fetched records, stated on the list itself and
  not through the loop body; the loop bodies are compared with these below.

  Prices: every token id has the price of the last fetched record that names it.
\<close>

definition price_records_result :: "TokenDayData list \<Rightarrow> error + AssetPrice" where
  "price_records_result rs =
     Inr (map_of (rev (map (\<lambda>tdd. (tdd_token_id tdd, tdd_priceUSD tdd)) rs)))"

text \<open>
  Trades: the trades of every fetched transaction, in the order of the records; the
  exception of the first transaction whose derivation raises, if there is one.
\<close>

definition trades_records_result :: "string \<Rightarrow> GraphSwap list list \<Rightarrow> error + AMMTrade list" where
  "trades_records_result addr rs =
     (case find (\<lambda>entry. isl (u_tx_swaps_to_trades (map (to_amm_swap addr) entry))) rs of
        Some entry \<Rightarrow> Inl (projl (u_tx_swaps_to_trades (map (to_amm_swap addr) entry)))
      | None \<Rightarrow>
          Inr (concat (map (\<lambda>entry. projr (u_tx_swaps_to_trades (map (to_amm_swap addr) entry)))
                         rs)))"

text \<open>
  Balances: every fetched liquidity position gives one pool with two assets, listed
  under its user in the order of the records; the known and unknown assets are the
  tokens of all fetched positions. A position whose pair has total supply zero raises
  in the division.
\<close>

definition position_asset :: "GraphLiquidityPosition \<Rightarrow> token \<Rightarrow> FVal \<Rightarrow> LiquidityPoolAsset" where
  "position_asset lp tok reserve =
     \<lparr>asset = tok, total_amount = reserve,
      user_balance =
        \<lparr>balance_amount = lp_liquidityTokenBalance lp / lp_pair_totalSupply lp * reserve,
         usd_value = 0\<rparr>,
      usd_price = 0\<rparr>"

definition position_pool :: "GraphLiquidityPosition \<Rightarrow> LiquidityPool" where
  "position_pool lp =
     \<lparr>pool_address = lp_pair_id lp,
      assets = [position_asset lp (lp_pair_token0 lp) (lp_pair_reserve0 lp),
                position_asset lp (lp_pair_token1 lp) (lp_pair_reserve1 lp)],
      total_supply = lp_pair_totalSupply lp,
      pool_user_balance = \<lparr>balance_amount = lp_liquidityTokenBalance lp, usd_value = 0\<rparr>\<rparr>"

definition token_known :: "token \<Rightarrow> EthereumToken list" where
  "token_known tok = (case tok of Known t \<Rightarrow> [t] | Unknown t \<Rightarrow> [])"

definition token_unknown :: "token \<Rightarrow> UnknownEthereumToken list" where
  "token_unknown tok = (case tok of Known t \<Rightarrow> [] | Unknown t \<Rightarrow> [t])"

definition balances_records_result :: "GraphLiquidityPosition list \<Rightarrow> error + ProtocolBalance" where
  "balances_records_result rs =
     (case find (\<lambda>lp. lp_pair_totalSupply lp = 0) rs of
        Some lp \<Rightarrow>
          Inl (if lp_liquidityTokenBalance lp = 0 then InvalidOperation else DivisionByZero)
      | None \<Rightarrow>
          Inr \<lparr>address_balances =
                 (\<lambda>user. if user \<in> lp_user_id ` set rs
                          then Some (map position_pool (filter (\<lambda>lp. lp_user_id lp = user) rs))
                          else None),
               known_assets =
                 set (concat (map (\<lambda>lp. token_known (lp_pair_token0 lp)
                                         @ token_known (lp_pair_token1 lp)) rs)),
               unknown_assets =
                 set (concat (map (\<lambda>lp. token_unknown (lp_pair_token0 lp)
                                         @ token_unknown (lp_pair_token1 lp)) rs))\<rparr>)"

text \<open>Example sources with page size 2: a full page, then a short one.\<close>

definition example_price_feed :: "int \<Rightarrow> int \<Rightarrow> string list \<Rightarrow> int \<Rightarrow> error + TokenDayData list" where
  "example_price_feed limit offset token_ids today_epoch =
     (if offset = 0
      then Inr [\<lparr>tdd_token_id = ''0xfoo'', tdd_priceUSD = 1 / 2\<rparr>,
                \<lparr>tdd_token_id = ''0xbar'', tdd_priceUSD = 3\<rparr>]
      else if offset = 2 then Inr [\<lparr>tdd_token_id = ''0xbaz'', tdd_priceUSD = 7\<rparr>]
      else Inl RemoteError)"

definition example_graph_swap :: "string \<Rightarrow> FVal \<Rightarrow> FVal \<Rightarrow> FVal \<Rightarrow> FVal \<Rightarrow> GraphSwap" where
  "example_graph_swap sid a0i a1i a0o a1o =
     \<lparr>swap_id = sid, swap_logIndex = 0, swap_sender = ''0xfrom'', swap_to = ''0xto'',
      swap_timestamp = 10, swap_token0 = example_token0, swap_token1 = example_token1,
      swap_amount0In = a0i, swap_amount1In = a1i, swap_amount0Out = a0o,
      swap_amount1Out = a1o\<rparr>"

definition example_swaps_graph ::
  "int \<Rightarrow> int \<Rightarrow> string \<Rightarrow> int \<Rightarrow> int \<Rightarrow> error + GraphSwap list list" where
  "example_swaps_graph limit offset addr start_ts end_ts =
     (if offset = 0
      then Inr [[example_graph_swap ''0xa-0'' 100 0 0 40],
                [example_graph_swap ''0xb-0'' 0 8 2 0]]
      else if offset = 2 then Inr [[example_graph_swap ''0xc-0'' 3 0 0 9]]
      else Inl RemoteError)"

definition example_position :: "string \<Rightarrow> FVal \<Rightarrow> GraphLiquidityPosition" where
  "example_position pair balance =
     \<lparr>lp_user_id = ''0xuser'', lp_liquidityTokenBalance = balance, lp_pair_id = pair,
      lp_pair_totalSupply = 10, lp_pair_reserve0 = 100, lp_pair_reserve1 = 50,
      lp_pair_token0 = example_token0, lp_pair_token1 = example_token1\<rparr>"

definition example_positions_graph ::
  "int \<Rightarrow> int \<Rightarrow> string list \<Rightarrow> error + GraphLiquidityPosition list" where
  "example_positions_graph limit offset addresses =
     (if offset = 0
      then Inr [example_position ''0xpool1'' 1, example_position ''0xpool2'' 2]
      else if offset = 2 then Inr [example_position ''0xpool3'' 5]
      else Inl RemoteError)"

text \<open>Example sources whose pages are never short.\<close>

definition example_endless_price_feed ::
  "int \<Rightarrow> int \<Rightarrow> string list \<Rightarrow> int \<Rightarrow> error + TokenDayData list" where
  "example_endless_price_feed limit offset token_ids today_epoch =
     Inr [\<lparr>tdd_token_id = ''0xfoo'', tdd_priceUSD = 1 / 2\<rparr>,
          \<lparr>tdd_token_id = ''0xbar'', tdd_priceUSD = 3\<rparr>]"

definition example_endless_swaps_graph ::
  "int \<Rightarrow> int \<Rightarrow> string \<Rightarrow> int \<Rightarrow> int \<Rightarrow> error + GraphSwap list list" where
  "example_endless_swaps_graph limit offset addr start_ts end_ts =
     Inr [[example_graph_swap ''0xa-0'' 100 0 0 40],
          [example_graph_swap ''0xb-0'' 0 8 2 0]]"

definition example_endless_positions_graph ::
  "int \<Rightarrow> int \<Rightarrow> string list \<Rightarrow> error + GraphLiquidityPosition list" where
  "example_endless_positions_graph limit offset addresses =
     Inr [example_position ''0xpool1'' 1, example_position ''0xpool2'' 2]"

section \<open>Sync ranges and the trade history of addresses\<close>

text \<open>
  Modelled from the spec: the database handler (\<^verbatim>\<open>rotkehlchen.db.dbhandler\<close>) is not
  among the sources. By the spec the range store offers
  \<^verbatim>\<open>get_range(key) -> Optional[(start_ts, end_ts)]\<close> and
  \<^verbatim>\<open>set_range(key, start_ts, end_ts)\<close> under a per-address key, and the swap store
  offers \<^verbatim>\<open>add_swaps\<close> (idempotent: a swap whose identity, the transaction hash, log
  index and address, is already stored is not stored again) and
  \<^verbatim>\<open>get_swaps(from_ts, to_ts, venue, address)\<close>. The state of the database is the
  range store and the list of stored swaps.
\<close>

record DBHandler =
  used_query_ranges :: "string \<rightharpoonup> int \<times> int"
  amm_swaps :: "AMMSwap list"

definition get_used_query_range :: "DBHandler \<Rightarrow> string \<Rightarrow> (int \<times> int) option" where
  "get_used_query_range db entry = used_query_ranges db entry"

definition update_used_query_range :: "DBHandler \<Rightarrow> string \<Rightarrow> int \<Rightarrow> int \<Rightarrow> DBHandler" where
  "update_used_query_range db entry start_ts end_ts =
     db\<lparr>used_query_ranges := (used_query_ranges db)(entry \<mapsto> (start_ts, end_ts))\<rparr>"

definition swap_identity :: "AMMSwap \<Rightarrow> string \<times> int \<times> string" where
  "swap_identity s = (tx_hash s, log_index s, address s)"

fun add_amm_swaps_loop :: "AMMSwap list \<Rightarrow> AMMSwap list \<Rightarrow> AMMSwap list" where
  "add_amm_swaps_loop stored [] = stored"
| "add_amm_swaps_loop stored (s # rest) =
     (if swap_identity s \<in> swap_identity ` set stored
      then add_amm_swaps_loop stored rest
      else add_amm_swaps_loop (stored @ [s]) rest)"

definition add_amm_swaps :: "DBHandler \<Rightarrow> AMMSwap list \<Rightarrow> DBHandler" where
  "add_amm_swaps db sws = db\<lparr>amm_swaps := add_amm_swaps_loop (amm_swaps db) sws\<rparr>"

definition get_amm_swaps :: "DBHandler \<Rightarrow> int \<Rightarrow> int \<Rightarrow> Location \<Rightarrow> string \<Rightarrow> AMMSwap list" where
  "get_amm_swaps db from_ts to_ts loc addr =
     filter (\<lambda>s. from_ts \<le> timestamp s \<and> timestamp s \<le> to_ts \<and> location s = loc
                  \<and> address s = addr)
       (amm_swaps db)"

text \<open>
  Modelled from the spec: the constant \<^verbatim>\<open>UNISWAP_TRADES_PREFIX\<close> is declared outside
  the sources; the spec asks only for a stable key per address and feed.
\<close>

definition UNISWAP_TRADES_PREFIX :: string where
  "UNISWAP_TRADES_PREFIX = ''uniswap_trades''"

definition entry_name :: "string \<Rightarrow> string" where
  "entry_name addr = UNISWAP_TRADES_PREFIX @ ''_'' @ addr"

type_synonym AddressTrades = "string \<rightharpoonup> AMMTrade list"

text \<open>
  \<^verbatim>\<open>_get_trades_graph\<close>: the trades of each address in turn. The value is \<open>None\<close>
  when one of the paginated queries does not return.
\<close>

fun get_trades_graph_loop ::
  "(int \<Rightarrow> int \<Rightarrow> string \<Rightarrow> int \<Rightarrow> int \<Rightarrow> error + GraphSwap list list) \<Rightarrow> int \<Rightarrow> string list
    \<Rightarrow> int \<Rightarrow> int \<Rightarrow> AddressTrades \<Rightarrow> (error + AddressTrades) option" where
  "get_trades_graph_loop graph_query limit [] start_ts end_ts address_trades =
     Some (Inr address_trades)"
| "get_trades_graph_loop graph_query limit (addr # rest) start_ts end_ts address_trades =
     (case u_get_trades_graph_for_address graph_query limit addr start_ts end_ts of
        None \<Rightarrow> None
      | Some (offsets, Inl e) \<Rightarrow> Some (Inl e)
      | Some (offsets, Inr trades) \<Rightarrow>
          get_trades_graph_loop graph_query limit rest start_ts end_ts
            (if length trades \<noteq> 0 then address_trades(addr \<mapsto> trades)
             else address_trades))"

definition u_get_trades_graph ::
  "(int \<Rightarrow> int \<Rightarrow> string \<Rightarrow> int \<Rightarrow> int \<Rightarrow> error + GraphSwap list list) \<Rightarrow> int \<Rightarrow> string list
    \<Rightarrow> int \<Rightarrow> int \<Rightarrow> (error + AddressTrades) option" where
  "u_get_trades_graph graph_query limit addresses start_ts end_ts =
     get_trades_graph_loop graph_query limit addresses start_ts end_ts Map.empty"

text \<open>
  The first loop of \<^verbatim>\<open>_get_trades\<close>: an address without a recorded range is new, one
  with a range is existing, and \<^verbatim>\<open>min_end_ts\<close>, which starts at \<^verbatim>\<open>to_timestamp\<close>,
  is lowered to the least recorded end.
\<close>

fun partition_addresses ::
  "DBHandler \<Rightarrow> string list \<Rightarrow> string list \<Rightarrow> string list \<Rightarrow> int
    \<Rightarrow> string list \<times> string list \<times> int" where
  "partition_addresses db [] new_addresses existing_addresses min_end_ts =
     (new_addresses, existing_addresses, min_end_ts)"
| "partition_addresses db (addr # rest) new_addresses existing_addresses min_end_ts =
     (case get_used_query_range db (entry_name addr) of
        None \<Rightarrow>
          partition_addresses db rest (new_addresses @ [addr]) existing_addresses min_end_ts
      | Some trades_range \<Rightarrow>
          partition_addresses db rest new_addresses (existing_addresses @ [addr])
            (min min_end_ts (snd trades_range)))"

text \<open>The loops that record the range \<open>(start_ts, end_ts)\<close> for each address of a batch.\<close>

fun update_ranges :: "DBHandler \<Rightarrow> string list \<Rightarrow> int \<Rightarrow> int \<Rightarrow> DBHandler" where
  "update_ranges db [] start_ts end_ts = db"
| "update_ranges db (addr # rest) start_ts end_ts =
     update_ranges (update_used_query_range db (entry_name addr) start_ts end_ts) rest
       start_ts end_ts"

text \<open>
  The last loop of \<^verbatim>\<open>_get_trades\<close>: the stored swaps of each address are read back
  and turned into trades.
\<close>

fun db_trades_loop ::
  "DBHandler \<Rightarrow> string list \<Rightarrow> int \<Rightarrow> int \<Rightarrow> AddressTrades \<Rightarrow> error + AddressTrades" where
  "db_trades_loop db [] from_ts to_ts db_address_trades = Inr db_address_trades"
| "db_trades_loop db (addr # rest) from_ts to_ts db_address_trades =
     (let db_swaps = get_amm_swaps db from_ts to_ts UNISWAP addr
      in case swaps_to_trades db_swaps of
           Inl e \<Rightarrow> Inl e
         | Inr db_trades \<Rightarrow>
             db_trades_loop db rest from_ts to_ts
               (if db_trades \<noteq> [] then db_address_trades(addr \<mapsto> db_trades)
                else db_address_trades))"

text \<open>
  The swaps of all fetched trades, each once. The source collects them in a set and
  lists the set; the order of that list is not fixed by the source, and nothing below
  depends on it.
\<close>

definition all_fetched_swaps :: "string list \<Rightarrow> AddressTrades \<Rightarrow> AMMSwap list" where
  "all_fetched_swaps addresses address_amm_trades =
     remdups (concat (map (\<lambda>addr. case address_amm_trades addr of
                                     None \<Rightarrow> []
                                   | Some trades \<Rightarrow> concat (map swaps trades))
                        addresses))"

text \<open>
  \<^verbatim>\<open>_get_trades\<close>. The result is the database after the call, the list of the calls
  of \<^verbatim>\<open>_get_trades_graph\<close> that were issued, each as \<open>(addresses, start_ts, end_ts)\<close>,
  and the returned trades or the exception; an exception leaves the ranges recorded
  before it in place. The value is \<open>None\<close> when a paginated query does not return.
\<close>

definition u_get_trades ::
  "(int \<Rightarrow> int \<Rightarrow> string \<Rightarrow> int \<Rightarrow> int \<Rightarrow> error + GraphSwap list list) \<Rightarrow> int \<Rightarrow> DBHandler
    \<Rightarrow> string list \<Rightarrow> int \<Rightarrow> int
    \<Rightarrow> (DBHandler \<times> (string list \<times> int \<times> int) list \<times> (error + AddressTrades)) option" where
  "u_get_trades graph_query limit db addresses from_timestamp to_timestamp =
     (let (new_addresses, existing_addresses, min_end_ts) =
            partition_addresses db addresses [] [] to_timestamp;
          r1 = (if new_addresses \<noteq> []
                then (case u_get_trades_graph graph_query limit new_addresses 0 to_timestamp of
                        None \<Rightarrow> None
                      | Some (Inl e) \<Rightarrow> Some (db, [(new_addresses, 0, to_timestamp)], Inl e)
                      | Some (Inr new_address_trades) \<Rightarrow>
                          Some (update_ranges db new_addresses 0 to_timestamp,
                                [(new_addresses, 0, to_timestamp)],
                                Inr (Map.empty ++ new_address_trades)))
                else Some (db, [], Inr Map.empty))
      in case r1 of
           None \<Rightarrow> None
         | Some (db1, fetches1, Inl e) \<Rightarrow> Some (db1, fetches1, Inl e)
         | Some (db1, fetches1, Inr address_amm_trades1) \<Rightarrow>
             (let r2 =
                    (if existing_addresses \<noteq> [] \<and> min_end_ts \<le> to_timestamp
                     then (case u_get_trades_graph graph_query limit existing_addresses
                                  min_end_ts to_timestamp of
                             None \<Rightarrow> None
                           | Some (Inl e) \<Rightarrow>
                               Some (db1,
                                     fetches1 @ [(existing_addresses, min_end_ts, to_timestamp)],
                                     Inl e)
                           | Some (Inr address_new_trades) \<Rightarrow>
                               Some (update_ranges db1 existing_addresses min_end_ts
                                       to_timestamp,
                                     fetches1 @ [(existing_addresses, min_end_ts, to_timestamp)],
                                     Inr (address_amm_trades1 ++ address_new_trades)))
                     else Some (db1, fetches1, Inr address_amm_trades1))
              in case r2 of
                   None \<Rightarrow> None
                 | Some (db2, fetches2, Inl e) \<Rightarrow> Some (db2, fetches2, Inl e)
                 | Some (db2, fetches2, Inr address_amm_trades) \<Rightarrow>
                     (let all_swaps = all_fetched_swaps addresses address_amm_trades;
                          db3 = add_amm_swaps db2 all_swaps
                      in case db_trades_loop db3 addresses from_timestamp to_timestamp
                                Map.empty of
                           Inl e \<Rightarrow> Some (db3, fetches2, Inl e)
                         | Inr db_address_trades \<Rightarrow>
                             Some (db3, fetches2, Inr db_address_trades))))"

text \<open>
  A sequence of calls of \<^verbatim>\<open>_get_trades\<close>, each with its subgraph, addresses and time
  window, run one after the other on the database; the result is the list of the
  databases after each call.
\<close>

record get_trades_call =
  call_graph :: "int \<Rightarrow> int \<Rightarrow> string \<Rightarrow> int \<Rightarrow> int \<Rightarrow> error + GraphSwap list list"
  call_addresses :: "string list"
  call_from :: int
  call_to :: int

fun get_trades_calls :: "int \<Rightarrow> DBHandler \<Rightarrow> get_trades_call list \<Rightarrow> DBHandler list option" where
  "get_trades_calls limit db [] = Some []"
| "get_trades_calls limit db (c # cs) =
     (case u_get_trades (call_graph c) limit db (call_addresses c) (call_from c) (call_to c) of
        None \<Rightarrow> None
      | Some (db', fetches, outcome) \<Rightarrow>
          (case get_trades_calls limit db' cs of
             None \<Rightarrow> None
           | Some dbs \<Rightarrow> Some (db' # dbs)))"

text \<open>An example subgraph without swaps, and a database with one recorded range.\<close>

definition example_empty_graph ::
  "int \<Rightarrow> int \<Rightarrow> string \<Rightarrow> int \<Rightarrow> int \<Rightarrow> error + GraphSwap list list" where
  "example_empty_graph limit offset addr start_ts end_ts = Inr []"

definition example_db :: DBHandler where
  "example_db = \<lparr>used_query_ranges = [entry_name ''0xuser'' \<mapsto> (0, 100)], amm_swaps = []\<rparr>"

definition example_empty_db :: DBHandler where
  "example_empty_db = \<lparr>used_query_ranges = Map.empty, amm_swaps = []\<rparr>"

text \<open>Two calls on the same address with increasing \<^verbatim>\<open>to_timestamp\<close>.\<close>

definition example_calls :: "get_trades_call list" where
  "example_calls =
     [\<lparr>call_graph = example_empty_graph, call_addresses = [''0xuser''], call_from = 0,
       call_to = 50\<rparr>,
      \<lparr>call_graph = example_empty_graph, call_addresses = [''0xuser''], call_from = 0,
       call_to = 80\<rparr>]"

section \<open>Properties of the trade derivation\<close>

lemmas tx_defs =
  u_tx_swaps_to_trades_def tx_quote_assets_def add_trades_from_swaps_def fval_div_def
  ZERO_def Let_def

text \<open>
  C1 (as stated in the spec): one swap with \<open>amount0_in = 100\<close>, \<open>amount1_out = 40\<close>
  and the other two amounts zero yields exactly one trade with base \<open>token1\<close>, quote
  \<open>token0\<close>, bought amount 40 and rate \<open>100 / 40 = 2.5\<close>. The code computes the rate as
  bought amount over sold amount, so the rate is not 2.5: the stated trade is not the
  one derived.
\<close>

theorem single_sided_rate_counterexample:
  "u_tx_swaps_to_trades [example_swap ''0xa1'' 10 0 100 0 0 40] \<noteq>
     Inr [\<lparr>trade_type = BUY, base_asset = example_token1, quote_asset = example_token0,
           amount = 40, rate = 5 / 2,
           swaps = [example_swap ''0xa1'' 10 0 100 0 0 40], trade_index = 0\<rparr>]"
  by (simp add: tx_defs example_swap_def)

text \<open>
  C1 (amended): one swap with \<open>amount0_in = 100\<close>, \<open>amount1_out = 40\<close>,
  \<open>amount0_out = 0\<close> and \<open>amount1_in = 0\<close> yields exactly one trade: a BUY with base
  \<open>token1\<close>, quote \<open>token0\<close>, bought amount 40, trade index 0, and rate
  \<open>bought / sold = 40 / 100 = 0.4\<close>.
\<close>

theorem single_sided_derivation:
  assumes "amount0_in s = 100" and "amount1_out s = 40"
    and "amount0_out s = 0" and "amount1_in s = 0"
  shows "u_tx_swaps_to_trades [s] =
     Inr [\<lparr>trade_type = BUY, base_asset = token1 s, quote_asset = token0 s,
           amount = 40, rate = 2 / 5, swaps = [s], trade_index = 0\<rparr>]"
  using assms by (simp add: tx_defs)

theorem single_sided_derivation_witness:
  "u_tx_swaps_to_trades [example_swap ''0xa1'' 10 0 100 0 0 40] =
     Inr [\<lparr>trade_type = BUY, base_asset = example_token1, quote_asset = example_token0,
           amount = 40, rate = 2 / 5,
           swaps = [example_swap ''0xa1'' 10 0 100 0 0 40], trade_index = 0\<rparr>]"
proof -
  let ?s = "example_swap ''0xa1'' 10 0 100 0 0 40"
  have h: "amount0_in ?s = 100" "amount1_out ?s = 40" "amount0_out ?s = 0"
    "amount1_in ?s = 0"
    by (simp_all add: example_swap_def)
  have t: "token1 ?s = example_token1" "token0 ?s = example_token0"
    by (simp_all add: example_swap_def)
  show ?thesis using single_sided_derivation[OF h] by (simp only: t)
qed

text \<open>
  C2: a group whose first swap has \<open>amount0_in = 10\<close>, \<open>amount1_in = 20\<close> and whose
  last swap has \<open>amount0_out = 6\<close>, \<open>amount1_out = 3\<close> yields exactly four trades. The
  two trades with base \<open>token0\<close> buy 3 each and come first (indices 0 and 1), the two
  with base \<open>token1\<close> buy 1.5 each (indices 2 and 3). The quote legs are \<open>token0\<close> with
  sold amount 5 and \<open>token1\<close> with sold amount 10 (the inbound amounts halved); the
  rates are bought over sold: 3/5, 3/10, 1.5/5 and 1.5/10.
\<close>

theorem both_in_both_out_split:
  assumes "sws \<noteq> []"
    and "amount0_in (hd sws) = 10" and "amount1_in (hd sws) = 20"
    and "amount0_out (last sws) = 6" and "amount1_out (last sws) = 3"
  shows "tx_quote_assets (hd sws)
           (amount0_in (hd sws) > ZERO \<and> amount1_in (hd sws) > ZERO)
           (amount0_out (last sws) > ZERO \<and> amount1_out (last sws) > ZERO)
         = [(token0 (hd sws), 5), (token1 (hd sws), 10)]
    \<and> u_tx_swaps_to_trades sws =
     Inr [\<lparr>trade_type = BUY, base_asset = token0 (last sws), quote_asset = token0 (hd sws),
           amount = 3, rate = 3 / 5, swaps = sws, trade_index = 0\<rparr>,
          \<lparr>trade_type = BUY, base_asset = token0 (last sws), quote_asset = token1 (hd sws),
           amount = 3, rate = 3 / 10, swaps = sws, trade_index = 1\<rparr>,
          \<lparr>trade_type = BUY, base_asset = token1 (last sws), quote_asset = token0 (hd sws),
           amount = 3 / 2, rate = (3 / 2) / 5, swaps = sws, trade_index = 2\<rparr>,
          \<lparr>trade_type = BUY, base_asset = token1 (last sws), quote_asset = token1 (hd sws),
           amount = 3 / 2, rate = (3 / 2) / 10, swaps = sws, trade_index = 3\<rparr>]"
  using assms by (simp add: tx_defs)

theorem both_in_both_out_split_witness:
  "map (\<lambda>t. (amount t, trade_index t))
     (projr (u_tx_swaps_to_trades
        [example_swap ''0xa2'' 10 0 10 20 0 0, example_swap ''0xa2'' 10 1 0 0 6 3]))
   = [(3, 0), (3, 1), (3 / 2, 2), (3 / 2, 3)]"
proof -
  let ?sws = "[example_swap ''0xa2'' 10 0 10 20 0 0, example_swap ''0xa2'' 10 1 0 0 6 3]"
  have h: "?sws \<noteq> []" "amount0_in (hd ?sws) = 10" "amount1_in (hd ?sws) = 20"
    "amount0_out (last ?sws) = 6" "amount1_out (last ?sws) = 3"
    by (simp_all add: example_swap_def)
  show ?thesis using both_in_both_out_split[OF h] by simp
qed

text \<open>
  C4: for a non-empty group whose first swap has \<open>amount0_in = 0\<close> and
  \<open>amount1_in = 0\<close> and whose last swap has a positive outbound amount, the quote leg
  selection takes the \<^verbatim>\<open>else\<close> branch and yields the single leg \<open>(token1, 0)\<close>, and
  the rate computation divides a positive bought amount by that zero: the derivation
  ends with the division error, there is no guard.
\<close>

theorem zero_quote_leg_division:
  assumes "sws \<noteq> []"
    and "amount0_in (hd sws) = 0" and "amount1_in (hd sws) = 0"
    and "amount0_out (last sws) > 0 \<or> amount1_out (last sws) > 0"
  shows "tx_quote_assets (hd sws)
           (amount0_in (hd sws) > ZERO \<and> amount1_in (hd sws) > ZERO) both_out
         = [(token1 (hd sws), 0)]
    \<and> u_tx_swaps_to_trades sws = Inl DivisionByZero"
  using assms by (auto simp add: tx_defs)

theorem zero_quote_leg_division_witness:
  "u_tx_swaps_to_trades [example_swap ''0xa3'' 10 0 0 0 7 0] = Inl DivisionByZero"
proof -
  let ?sws = "[example_swap ''0xa3'' 10 0 0 0 7 0]"
  have h: "?sws \<noteq> []" "amount0_in (hd ?sws) = 0" "amount1_in (hd ?sws) = 0"
    "amount0_out (last ?sws) > 0 \<or> amount1_out (last ?sws) > 0"
    by (simp_all add: example_swap_def)
  show ?thesis using zero_quote_leg_division[OF h] by (rule conjunct2)
qed

section \<open>Properties of the grouping\<close>

text \<open>The recording loop never fails and only appends to the groups it already has.\<close>

lemma record_loop_acc:
  "\<exists>gs. \<forall>acc. swaps_loop (\<lambda>g. Inr [g]) xs l cur acc = Inr (acc @ gs)"
proof (induction xs arbitrary: l cur)
  case Nil
  show ?case by (cases "cur = []") auto
next
  case (Cons swap rest)
  show ?case
  proof (cases "tx_hash swap \<noteq> l")
    case True
    from Cons.IH[of "tx_hash swap" "[swap]"] obtain gs where
      gs: "\<And>acc. swaps_loop (\<lambda>g. Inr [g]) rest (tx_hash swap) [swap] acc = Inr (acc @ gs)"
      by blast
    have "\<forall>acc. swaps_loop (\<lambda>g. Inr [g]) (swap # rest) l cur acc = Inr (acc @ (cur # gs))"
      using True by (simp add: gs)
    then show ?thesis by blast
  next
    case False
    from Cons.IH[of "tx_hash swap" "cur @ [swap]"] obtain gs where
      gs: "\<And>acc. swaps_loop (\<lambda>g. Inr [g]) rest (tx_hash swap) (cur @ [swap]) acc
             = Inr (acc @ gs)"
      by blast
    have "\<forall>acc. swaps_loop (\<lambda>g. Inr [g]) (swap # rest) l cur acc = Inr (acc @ gs)"
      using False gs by simp
    then show ?thesis by blast
  qed
qed

text \<open>
  The loop with any callee \<open>f\<close> is the recording loop followed by \<open>f\<close> on each
  recorded group in turn: the recorded groups are the arguments that \<open>f\<close> receives.
\<close>

lemma swaps_loop_run_groups:
  "swaps_loop f xs l cur acc =
     (case swaps_loop (\<lambda>g. Inr [g]) xs l cur [] of
        Inl e \<Rightarrow> Inl e
      | Inr gs \<Rightarrow> run_groups f gs acc)"
proof (induction xs arbitrary: l cur acc)
  case Nil
  show ?case by (cases "cur = []") (auto split: sum.splits)
next
  case (Cons swap rest)
  show ?case
  proof (cases "tx_hash swap \<noteq> l")
    case True
    obtain gs where
      gs: "\<And>acc. swaps_loop (\<lambda>g. Inr [g]) rest (tx_hash swap) [swap] acc = Inr (acc @ gs)"
      using record_loop_acc[of rest "tx_hash swap" "[swap]"] by blast
    have r: "swaps_loop (\<lambda>g. Inr [g]) (swap # rest) l cur [] = Inr (cur # gs)"
      using True gs[of "[cur]"] by simp
    show ?thesis
    proof (cases "f cur")
      case (Inl e)
      then show ?thesis using True r by simp
    next
      case (Inr ts)
      have "swaps_loop f (swap # rest) l cur acc
              = swaps_loop f rest (tx_hash swap) [swap] (acc @ ts)"
        using True Inr by simp
      also have "\<dots> = run_groups f gs (acc @ ts)"
        using Cons.IH[of "tx_hash swap" "[swap]" "acc @ ts"] gs[of "[]"] by simp
      finally show ?thesis using r Inr by simp
    qed
  next
    case False
    then show ?thesis using Cons.IH[of "tx_hash swap" "cur @ [swap]" acc] by simp
  qed
qed

lemma swaps_to_trades_via_groups:
  "swaps_to_trades_via f sws =
     (case tx_groups sws of Inl e \<Rightarrow> Inl e | Inr gs \<Rightarrow> run_groups f gs [])"
  unfolding tx_groups_def swaps_to_trades_via_def Let_def
  using swaps_loop_run_groups[of f "swaps_sort sws" "tx_hash (hd (swaps_sort sws))" "[]" "[]"]
  by simp

lemma tx_groups_total: "\<exists>gs. tx_groups sws = Inr gs"
  unfolding tx_groups_def swaps_to_trades_via_def Let_def
  using record_loop_acc[of "swaps_sort sws" "tx_hash (hd (swaps_sort sws))" "[]"]
  by auto

text \<open>
  A group is flushed only when the transaction hash changes, and at that point the
  current group holds at least the previous swap.
\<close>

lemma record_loop_nonempty:
  "swaps_loop (\<lambda>g. Inr [g]) xs l cur acc = Inr gs \<Longrightarrow> [] \<notin> set acc \<Longrightarrow>
   cur \<noteq> [] \<or> (xs \<noteq> [] \<and> tx_hash (hd xs) = l) \<or> xs = [] \<Longrightarrow> [] \<notin> set gs"
proof (induction xs arbitrary: l cur acc)
  case Nil
  then show ?case by (cases "cur = []") auto
next
  case (Cons swap rest)
  show ?case
  proof (cases "tx_hash swap \<noteq> l")
    case True
    with Cons.prems have c: "cur \<noteq> []" by auto
    from Cons.prems(1) True
    have "swaps_loop (\<lambda>g. Inr [g]) rest (tx_hash swap) [swap] (acc @ [cur]) = Inr gs"
      by simp
    from Cons.IH[OF this] c Cons.prems(2) show ?thesis by simp
  next
    case False
    with Cons.prems(1)
    have "swaps_loop (\<lambda>g. Inr [g]) rest (tx_hash swap) (cur @ [swap]) acc = Inr gs"
      by simp
    from Cons.IH[OF this] Cons.prems(2) show ?thesis by simp
  qed
qed

lemma tx_groups_nonempty:
  assumes "tx_groups sws = Inr gs"
  shows "[] \<notin> set gs"
proof (cases "sws = []")
  case True
  with assms show ?thesis by (simp add: tx_groups_def swaps_to_trades_via_def)
next
  case False
  have "length (swaps_sort sws) = length sws" by (simp add: swaps_sort_def)
  with False have ne: "swaps_sort sws \<noteq> []" by auto
  from assms False have
    "swaps_loop (\<lambda>g. Inr [g]) (swaps_sort sws) (tx_hash (hd (swaps_sort sws))) [] [] = Inr gs"
    by (simp add: tx_groups_def swaps_to_trades_via_def Let_def)
  from record_loop_nonempty[OF this] ne show ?thesis by simp
qed

lemma add_trades_loop_no_IndexError:
  "add_trades_loop sws tok b qs trades i \<noteq> Inl IndexError"
  by (induction qs arbitrary: trades i) (auto simp: fval_div_def Let_def split: sum.splits)

lemma tx_swaps_no_IndexError: "sws \<noteq> [] \<Longrightarrow> u_tx_swaps_to_trades sws \<noteq> Inl IndexError"
  by (auto simp: u_tx_swaps_to_trades_def Let_def add_trades_from_swaps_def
      add_trades_loop_no_IndexError split: sum.splits)

lemma run_groups_no_IndexError:
  "[] \<notin> set gs \<Longrightarrow> run_groups u_tx_swaps_to_trades gs acc \<noteq> Inl IndexError"
  by (induction gs arbitrary: acc) (auto simp: tx_swaps_no_IndexError split: sum.splits)

text \<open>
  C3 (as stated in the spec): for the input
  \<open>[(tx=A, ts=10, log=2), (tx=A, ts=10, log=1), (tx=B, ts=5, log=0)]\<close> the B-group
  is processed before the A-group, and the A-group is ordered \<open>[log=2, log=1]\<close>.
  The sort is descending in \<open>(timestamp, - log_index)\<close>, so the code does the opposite
  on both counts.
\<close>

theorem grouping_order_counterexample:
  "tx_groups [example_swap ''A'' 10 2 1 0 0 1, example_swap ''A'' 10 1 1 0 0 1,
              example_swap ''B'' 5 0 1 0 0 1]
   \<noteq> Inr [[example_swap ''B'' 5 0 1 0 0 1],
           [example_swap ''A'' 10 2 1 0 0 1, example_swap ''A'' 10 1 1 0 0 1]]"
  by (simp add: tx_groups_def swaps_to_trades_via_def swaps_sort_def Let_def
      example_swap_def)

text \<open>
  C3 (amended): for the input
  \<open>[(tx=A, ts=10, log=2), (tx=A, ts=10, log=1), (tx=B, ts=5, log=0)]\<close>,
  \<^verbatim>\<open>swaps_to_trades\<close> sorts and groups the swaps so that the A-group (the later
  timestamp) is processed before the B-group, and within the A-group the order is
  \<open>[log=1, log=2]\<close> (ascending log index).
\<close>

theorem grouping_order:
  assumes "tx_hash a2 = txA" and "timestamp a2 = 10" and "log_index a2 = 2"
    and "tx_hash a1 = txA" and "timestamp a1 = 10" and "log_index a1 = 1"
    and "tx_hash b = txB" and "timestamp b = 5" and "log_index b = 0"
    and "txA \<noteq> txB"
  shows "tx_groups [a2, a1, b] = Inr [[a1, a2], [b]]"
  using assms by (simp add: tx_groups_def swaps_to_trades_via_def swaps_sort_def Let_def)

theorem grouping_order_witness:
  "tx_groups [example_swap ''A'' 10 2 1 0 0 1, example_swap ''A'' 10 1 1 0 0 1,
              example_swap ''B'' 5 0 1 0 0 1]
   = Inr [[example_swap ''A'' 10 1 1 0 0 1, example_swap ''A'' 10 2 1 0 0 1],
          [example_swap ''B'' 5 0 1 0 0 1]]"
proof -
  let ?a2 = "example_swap ''A'' 10 2 1 0 0 1"
  let ?a1 = "example_swap ''A'' 10 1 1 0 0 1"
  let ?b = "example_swap ''B'' 5 0 1 0 0 1"
  have h: "tx_hash ?a2 = ''A''" "timestamp ?a2 = 10" "log_index ?a2 = 2"
    "tx_hash ?a1 = ''A''" "timestamp ?a1 = 10" "log_index ?a1 = 1"
    "tx_hash ?b = ''B''" "timestamp ?b = 5" "log_index ?b = 0" "''A'' \<noteq> ''B''"
    by (simp_all add: example_swap_def)
  show ?thesis by (rule grouping_order[OF h])
qed

text \<open>
  C10: \<^verbatim>\<open>swaps_to_trades\<close> on the empty list returns the empty list whatever the
  callee is (the callee is not invoked); for every input the groups handed to
  \<^verbatim>\<open>_tx_swaps_to_trades\<close> are all non-empty, the result is that of running
  \<^verbatim>\<open>_tx_swaps_to_trades\<close> on these groups in turn, and it is never the \<open>IndexError\<close>
  of \<^verbatim>\<open>swaps[0]\<close> or \<^verbatim>\<open>swaps[-1]\<close>.
\<close>

theorem swaps_to_trades_groups_in_bounds:
  "swaps_to_trades_via f [] = Inr []
   \<and> swaps_to_trades [] = Inr []
   \<and> (\<exists>gs. tx_groups sws = Inr gs \<and> [] \<notin> set gs
         \<and> swaps_to_trades sws = run_groups u_tx_swaps_to_trades gs [])
   \<and> swaps_to_trades sws \<noteq> Inl IndexError"
proof -
  obtain gs where gs: "tx_groups sws = Inr gs"
    using tx_groups_total[of sws] by blast
  have ne: "[] \<notin> set gs" by (rule tx_groups_nonempty[OF gs])
  have run: "swaps_to_trades sws = run_groups u_tx_swaps_to_trades gs []"
    by (simp add: swaps_to_trades_def swaps_to_trades_via_groups gs)
  have "swaps_to_trades sws \<noteq> Inl IndexError"
    unfolding run by (rule run_groups_no_IndexError[OF ne])
  moreover have "swaps_to_trades_via f [] = Inr []" "swaps_to_trades [] = Inr []"
    by (simp_all add: swaps_to_trades_def swaps_to_trades_via_def)
  ultimately show ?thesis using gs ne run by blast
qed

section \<open>Properties of the price reconciliation\<close>

lemma known_loop_unknown:
  "known_asset_price_loop q ks ap un = (ap', un') \<Longrightarrow>
   un' = un \<union> (\<lambda>k. \<lparr>unk_ethereum_address = ethereum_address k, unk_symbol = identifier k,
        unk_name = name k, unk_decimals = decimals k\<rparr>) ` {k \<in> set ks. q k = ZERO}"
  by (induction ks arbitrary: ap un) (auto simp: Let_def split: if_splits)

lemma known_loop_dom:
  "known_asset_price_loop q ks ap un = (ap', un') \<Longrightarrow>
   dom ap' = dom ap \<union> ethereum_address ` {k \<in> set ks. q k \<noteq> ZERO}"
  by (induction ks arbitrary: ap un) (auto simp: Let_def split: if_splits)

lemma known_loop_nonzero:
  "known_asset_price_loop q ks ap un = (ap', un') \<Longrightarrow>
   (\<forall>a p. ap a = Some p \<longrightarrow> p \<noteq> ZERO) \<Longrightarrow> ap' a = Some p \<Longrightarrow> p \<noteq> ZERO"
  by (induction ks arbitrary: ap un) (auto simp: Let_def split: if_splits)

lemma update_assets_loop_eq: "update_assets_loop kp up as t =
   (map (update_asset_price kp up) as,
    t + sum_list (map (\<lambda>a. usd_value (user_balance a)) (map (update_asset_price kp up) as)))"
  by (induction as arbitrary: t) (simp_all add: Let_def)

lemma update_pool_price_sum: "usd_value (pool_user_balance (update_pool_price kp up lp)) =
    sum_list (map (\<lambda>a. usd_value (user_balance a)) (assets (update_pool_price kp up lp)))"
  by (simp add: update_pool_price_def update_assets_loop_eq)

lemma update_pool_price_assets: "assets (update_pool_price kp up lp) = map (update_asset_price kp up) (assets lp)"
  by (simp add: update_pool_price_def update_assets_loop_eq)

text \<open>
  C8 (as stated in the spec): after \<^verbatim>\<open>_get_known_asset_price\<close> every address is in
  at most one of \<^verbatim>\<open>known_assets\<close> and \<^verbatim>\<open>unknown_assets\<close>. The function adds the
  zero-priced asset to \<^verbatim>\<open>unknown_assets\<close> and leaves \<^verbatim>\<open>known_assets\<close> as it is, so
  the address of such an asset is in both sets.
\<close>

theorem known_unknown_exclusivity_counterexample:
  "ethereum_address ` set (fst (snd (u_get_known_asset_price [example_dai] {} example_price_query)))
   \<inter> unk_ethereum_address `
       snd (snd (u_get_known_asset_price [example_dai] {} example_price_query)) \<noteq> {}"
  by (simp add: u_get_known_asset_price_def example_dai_def example_price_query_def ZERO_def)

text \<open>
  C8 (amended): after \<^verbatim>\<open>_get_known_asset_price\<close> runs, \<^verbatim>\<open>known_assets\<close> is
  unchanged; the addresses in \<^verbatim>\<open>unknown_assets\<close> are those it held before together
  with the addresses of the known assets whose primary price is exactly zero; the
  returned price map has an entry exactly for the addresses of the known assets with a
  nonzero price and holds no zero price. So an asset whose primary price query returns
  zero is added to \<^verbatim>\<open>unknown_assets\<close> and (known assets having distinct addresses) is
  omitted from the returned price map, while it remains in \<^verbatim>\<open>known_assets\<close>: its
  address is in both sets. The statement is about addresses, so it does not depend on
  how the set of unknown tokens compares its elements.
\<close>

theorem known_asset_reclassification:
  assumes "u_get_known_asset_price known unknown price_query
             = (asset_price, known', unknown')"
  shows "known' = known
    \<and> unk_ethereum_address ` unknown' =
        unk_ethereum_address ` unknown
        \<union> ethereum_address ` {k \<in> set known. price_query k = ZERO}
    \<and> dom asset_price = ethereum_address ` {k \<in> set known. price_query k \<noteq> ZERO}
    \<and> (\<forall>a p. asset_price a = Some p \<longrightarrow> p \<noteq> ZERO)
    \<and> (\<forall>k \<in> set known. price_query k = ZERO \<longrightarrow>
          ethereum_address k \<in> unk_ethereum_address ` unknown'
          \<and> ethereum_address k \<in> ethereum_address ` set known'
          \<and> (inj_on ethereum_address (set known) \<longrightarrow>
               asset_price (ethereum_address k) = None))"
proof -
  from assms have k: "known' = known"
    and loop: "known_asset_price_loop price_query known Map.empty unknown
                 = (asset_price, unknown')"
    by (auto simp: u_get_known_asset_price_def split: prod.splits)
  have un: "unk_ethereum_address ` unknown' =
        unk_ethereum_address ` unknown
        \<union> ethereum_address ` {k \<in> set known. price_query k = ZERO}"
    unfolding known_loop_unknown[OF loop] by (auto simp: image_Un image_image)
  have d: "dom asset_price = ethereum_address ` {k \<in> set known. price_query k \<noteq> ZERO}"
    using known_loop_dom[OF loop] by simp
  have nz: "\<forall>a p. asset_price a = Some p \<longrightarrow> p \<noteq> ZERO"
    using known_loop_nonzero[OF loop] by auto
  have both: "\<forall>k \<in> set known. price_query k = ZERO \<longrightarrow>
          ethereum_address k \<in> unk_ethereum_address ` unknown'
          \<and> ethereum_address k \<in> ethereum_address ` set known'
          \<and> (inj_on ethereum_address (set known) \<longrightarrow>
               asset_price (ethereum_address k) = None)"
  proof (intro ballI impI conjI)
    fix x assume x: "x \<in> set known" "price_query x = ZERO"
    show "ethereum_address x \<in> unk_ethereum_address ` unknown'"
      unfolding un using x by auto
    show "ethereum_address x \<in> ethereum_address ` set known'"
      using x k by auto
    assume inj: "inj_on ethereum_address (set known)"
    show "asset_price (ethereum_address x) = None"
    proof (rule ccontr)
      assume "asset_price (ethereum_address x) \<noteq> None"
      then have "ethereum_address x \<in> dom asset_price" by auto
      with d obtain y where y: "y \<in> set known" "price_query y \<noteq> ZERO"
        "ethereum_address x = ethereum_address y" by auto
      with inj x have "x = y" by (auto dest: inj_onD)
      with x y show False by simp
    qed
  qed
  from k un d nz both show ?thesis by blast
qed

theorem known_asset_reclassification_witness:
  "fst (snd (u_get_known_asset_price [example_dai, example_weth] {} example_price_query))
     = [example_dai, example_weth]
   \<and> ''0xdai'' \<in> unk_ethereum_address `
        snd (snd (u_get_known_asset_price [example_dai, example_weth] {} example_price_query))
   \<and> fst (u_get_known_asset_price [example_dai, example_weth] {} example_price_query) ''0xdai''
       = None"
proof -
  let ?R = "u_get_known_asset_price [example_dai, example_weth] {} example_price_query"
  have h: "?R = (fst ?R, fst (snd ?R), snd (snd ?R))" by simp
  have z: "example_dai \<in> set [example_dai, example_weth]"
    "example_price_query example_dai = ZERO"
    "inj_on ethereum_address (set [example_dai, example_weth])"
    "ethereum_address example_dai = ''0xdai''"
    by (simp_all add: example_price_query_def example_dai_def example_weth_def ZERO_def)
  from known_asset_reclassification[OF h] z show ?thesis
    by (metis (no_types, lifting))
qed

text \<open>
  C9: after \<^verbatim>\<open>_update_assets_prices_in_address_balances\<close>, for every pool of every
  address the pool's \<open>usd_value\<close> is the sum of its assets' \<open>usd_value\<close> fields. The
  assets of the pool are the former assets, each updated: when the price looked up in
  the known map (falling back to the unknown map) is nonzero, the asset gets this price
  and \<open>usd_value = amount * price\<close>; when it is zero, and in particular when neither map
  has a nonzero price for the address, the asset is unchanged.
\<close>

theorem pool_usd_aggregation:
  assumes "u_update_assets_prices_in_address_balances balances kp up addr = Some lps'"
    and "lp' \<in> set lps'"
  shows "usd_value (pool_user_balance lp')
           = sum_list (map (\<lambda>a. usd_value (user_balance a)) (assets lp'))
    \<and> (\<exists>lps lp. balances addr = Some lps \<and> lp \<in> set lps
          \<and> assets lp' = map (update_asset_price kp up) (assets lp)
          \<and> (\<forall>a \<in> set (assets lp).
                (asset_usd_price_lookup kp up (token_ethereum_address (asset a)) \<noteq> ZERO \<longrightarrow>
                   usd_price (update_asset_price kp up a)
                     = asset_usd_price_lookup kp up (token_ethereum_address (asset a))
                   \<and> usd_value (user_balance (update_asset_price kp up a))
                     = balance_amount (user_balance a)
                       * asset_usd_price_lookup kp up (token_ethereum_address (asset a)))
                \<and> (asset_usd_price_lookup kp up (token_ethereum_address (asset a)) = ZERO \<longrightarrow>
                     update_asset_price kp up a = a)
                \<and> ((\<forall>p. kp (token_ethereum_address (asset a)) = Some p \<longrightarrow> p = ZERO)
                    \<and> (\<forall>p. up (token_ethereum_address (asset a)) = Some p \<longrightarrow> p = ZERO) \<longrightarrow>
                     update_asset_price kp up a = a)))"
proof -
  from assms obtain lps lp where l: "balances addr = Some lps" "lp \<in> set lps"
    "lp' = update_pool_price kp up lp"
    by (auto simp: u_update_assets_prices_in_address_balances_def)
  have s: "usd_value (pool_user_balance lp')
           = sum_list (map (\<lambda>a. usd_value (user_balance a)) (assets lp'))"
    unfolding l(3) by (rule update_pool_price_sum)
  have a: "assets lp' = map (update_asset_price kp up) (assets lp)"
    unfolding l(3) by (rule update_pool_price_assets)
  have z: "\<And>x. (\<forall>p. kp x = Some p \<longrightarrow> p = ZERO) \<and> (\<forall>p. up x = Some p \<longrightarrow> p = ZERO)
      \<Longrightarrow> asset_usd_price_lookup kp up x = ZERO"
    by (auto simp: asset_usd_price_lookup_def split: option.splits)
  have u: "\<And>a. asset_usd_price_lookup kp up (token_ethereum_address (asset a)) = ZERO
      \<Longrightarrow> update_asset_price kp up a = a"
    by (simp add: update_asset_price_def)
  have n: "\<And>a. asset_usd_price_lookup kp up (token_ethereum_address (asset a)) \<noteq> ZERO \<Longrightarrow>
       usd_price (update_asset_price kp up a)
                     = asset_usd_price_lookup kp up (token_ethereum_address (asset a))
                   \<and> usd_value (user_balance (update_asset_price kp up a))
                     = balance_amount (user_balance a)
                       * asset_usd_price_lookup kp up (token_ethereum_address (asset a))"
    by (simp add: update_asset_price_def Let_def)
  show ?thesis using l(1,2) s a z u n by blast
qed

theorem pool_usd_aggregation_witness:
  "u_update_assets_prices_in_address_balances example_address_balances example_known_price
     example_unknown_price ''0xuser''
     = Some [update_pool_price example_known_price example_unknown_price example_pool]
   \<and> usd_value (pool_user_balance
         (update_pool_price example_known_price example_unknown_price example_pool)) = 17 / 2"
proof -
  let ?lp = "update_pool_price example_known_price example_unknown_price example_pool"
  have h: "u_update_assets_prices_in_address_balances example_address_balances
             example_known_price example_unknown_price ''0xuser'' = Some [?lp]"
    "?lp \<in> set [?lp]"
    by (simp_all add: u_update_assets_prices_in_address_balances_def
        example_address_balances_def)
  have a: "assets ?lp =
     [\<lparr>asset = Known example_weth, total_amount = 100,
       user_balance = \<lparr>balance_amount = 3, usd_value = 6\<rparr>, usd_price = 2\<rparr>,
      \<lparr>asset = example_token1, total_amount = 50,
       user_balance = \<lparr>balance_amount = 5, usd_value = 5 / 2\<rparr>, usd_price = 1 / 2\<rparr>]"
    by (simp add: update_pool_price_def update_asset_price_def asset_usd_price_lookup_def
        example_pool_def example_known_price_def example_unknown_price_def
        example_weth_def example_token1_def ZERO_def Let_def)
  from pool_usd_aggregation[OF h]
  have "usd_value (pool_user_balance ?lp)
          = sum_list (map (\<lambda>a. usd_value (user_balance a)) (assets ?lp))"
    by (rule conjunct1)
  then have "usd_value (pool_user_balance ?lp) = 17 / 2"
    unfolding a by simp
  with h(1) show ?thesis by simp
qed

section \<open>Properties of the pagination\<close>

lemma fold_err_append:
  "fold_err step (xs @ ys) acc =
     (case fold_err step xs acc of Inl e \<Rightarrow> Inl e | Inr acc' \<Rightarrow> fold_err step ys acc')"
  by (induction xs arbitrary: acc) (auto split: sum.splits)

lemma upt_Suc_shift: "[0..<Suc k] = 0 # map Suc [0..<k]"
  by (simp add: upt_conv_Cons map_Suc_upt del: upt_Suc)

lemma shift_offset:
  "off + int (Suc j) * limit = (off + limit) + int j * limit"
  "off + (1 + int j) * limit = (off + limit) + int j * limit"
  by (simp_all add: algebra_simps)

lemma fetched_records_0:
  "query off = Inr page \<Longrightarrow> fetched_records (\<lambda>o'. query (off + o')) limit 0 = page"
  by (simp add: fetched_records_def)

lemma fetched_records_Suc:
  "query off = Inr page \<Longrightarrow>
   fetched_records (\<lambda>o'. query (off + o')) limit (Suc k)
     = page @ fetched_records (\<lambda>o'. query ((off + limit) + o')) limit k"
  unfolding fetched_records_def upt_Suc_shift[of "Suc k"]
  by (simp add: shift_offset comp_def del: upt_Suc)

lemma page_offsets_0: "map ((+) off) (page_offsets limit 0) = [off]"
  by (simp add: page_offsets_def)

lemma page_offsets_Suc:
  "map ((+) off) (page_offsets limit (Suc k)) = off # map ((+) (off + limit)) (page_offsets limit k)"
  unfolding page_offsets_def upt_Suc_shift[of "Suc k"]
  by (simp add: shift_offset comp_def del: upt_Suc)

lemma pagination_outcome_0:
  "pagination_outcome (\<lambda>o'. query (off + o')) limit (\<lambda>rs. fold_err step rs acc) 0 =
     (case query off of
        Inl e \<Rightarrow> Some (Inl e)
      | Inr page \<Rightarrow>
          (case fold_err step page acc of
             Inl e \<Rightarrow> Some (Inl e)
           | Inr acc' \<Rightarrow> if int (length page) < limit then Some (Inr acc') else None))"
  by (cases "query off") (simp_all add: pagination_outcome_def fetched_records_0)

lemma pagination_outcome_Suc:
  assumes "query off = Inr page" and "fold_err step page acc = Inr acc1"
  shows "pagination_outcome (\<lambda>o'. query (off + o')) limit (\<lambda>rs. fold_err step rs acc) (Suc k)
       = pagination_outcome (\<lambda>o'. query ((off + limit) + o')) limit
           (\<lambda>rs. fold_err step rs acc1) k"
  unfolding pagination_outcome_def
    fetched_records_Suc[of query off page limit k, OF assms(1)] fold_err_append
  by (simp add: assms(2) shift_offset cong: sum.case_cong)

lemma list_all_upt_Suc_shift:
  "list_all P [0..<Suc k] \<longleftrightarrow> P 0 \<and> list_all (\<lambda>j. P (Suc j)) [0..<k]"
  unfolding upt_Suc_shift[of k] by (simp add: list.pred_map comp_def)

lemma graph_query_loop_first_stop:
  assumes "list_all (\<lambda>j. pagination_outcome (\<lambda>o'. query (off + o')) limit
                            (\<lambda>rs. fold_err step rs acc) j = None) [0..<k]"
    and "pagination_outcome (\<lambda>o'. query (off + o')) limit (\<lambda>rs. fold_err step rs acc) k
           = Some out"
  shows "graph_query_loop query limit step off offs acc =
           Some (offs @ map ((+) off) (page_offsets limit k), out)"
  using assms
proof (induction k arbitrary: off offs acc)
  case 0
  from 0(2) show ?case
    unfolding pagination_outcome_0
    by (subst graph_query_loop.simps) (auto simp: page_offsets_0 split: sum.splits if_splits)
next
  case (Suc k)
  from Suc.prems(1) have first: "pagination_outcome (\<lambda>o'. query (off + o')) limit
                            (\<lambda>rs. fold_err step rs acc) 0 = None"
    and rest: "list_all (\<lambda>j. pagination_outcome (\<lambda>o'. query (off + o')) limit
                            (\<lambda>rs. fold_err step rs acc) (Suc j) = None) [0..<k]"
    unfolding list_all_upt_Suc_shift by simp_all
  from first obtain page acc1 where page: "query off = Inr page"
    and acc1: "fold_err step page acc = Inr acc1" and full: "\<not> int (length page) < limit"
    unfolding pagination_outcome_0 by (auto split: sum.splits if_splits)
  note shift = pagination_outcome_Suc[of query off page step acc acc1 limit, OF page acc1]
  from rest have rest': "list_all (\<lambda>j. pagination_outcome (\<lambda>o'. query ((off + limit) + o')) limit
                            (\<lambda>rs. fold_err step rs acc1) j = None) [0..<k]"
    unfolding shift .
  from Suc.prems(2) have last': "pagination_outcome (\<lambda>o'. query ((off + limit) + o')) limit
      (\<lambda>rs. fold_err step rs acc1) k = Some out"
    unfolding shift .
  have "graph_query_loop query limit step off offs acc
        = graph_query_loop query limit step (off + limit) (offs @ [off]) acc1"
    by (subst graph_query_loop.simps) (simp add: page acc1 full)
  also have "\<dots> = Some ((offs @ [off]) @ map ((+) (off + limit)) (page_offsets limit k), out)"
    by (rule Suc.IH[OF rest' last'])
  finally show ?case by (simp add: page_offsets_Suc)
qed

lemma graph_query_loop_run:
  assumes run: "graph_query_loop query limit step off offs acc = Some y"
  shows "loop_run query limit step off offs acc y"
proof (rule graph_query_loop.raw_induct[where P = loop_run, OF _ run])
  fix f :: "(int \<Rightarrow> error + 'r list) \<Rightarrow> int \<Rightarrow> ('a \<Rightarrow> 'r \<Rightarrow> error + 'a) \<Rightarrow> int \<Rightarrow> int list \<Rightarrow> 'a
    \<Rightarrow> (int list \<times> (error + 'a)) option"
    and query limit step off offs acc y
  assume IH: "\<And>query limit step off offs acc y.
      f query limit step off offs acc = Some y \<Longrightarrow> loop_run query limit step off offs acc y"
  assume body: "(case query off of
        Inl e \<Rightarrow> Some (offs @ [off], Inl e)
      | Inr result_data \<Rightarrow>
          (case fold_err step result_data acc of
             Inl e \<Rightarrow> Some (offs @ [off], Inl e)
           | Inr acc' \<Rightarrow>
               if int (length result_data) < limit
               then Some (offs @ [off], Inr acc')
               else f query limit step (off + limit) (offs @ [off]) acc')) = Some y"
  let ?o = "\<lambda>off acc. pagination_outcome (\<lambda>o'. query (off + o')) limit
                        (\<lambda>rs. fold_err step rs acc)"
  have stop0: "loop_run query limit step off offs acc y"
    if "?o off acc 0 = Some (snd y)" "fst y = offs @ [off]"
    unfolding loop_run_def
  proof (intro exI[of _ 0] conjI)
    show "list_all (\<lambda>j. ?o off acc j = None) [0..<0]" by simp
    show "?o off acc 0 = Some (snd y)" by (rule that(1))
    show "fst y = offs @ map ((+) off) (page_offsets limit 0)"
      using that(2) by (simp add: page_offsets_0)
  qed
  show "loop_run query limit step off offs acc y"
  proof (cases "query off")
    case (Inl e)
    with body have "y = (offs @ [off], Inl e)" by simp
    with Inl show ?thesis by (intro stop0) (simp_all add: pagination_outcome_0)
  next
    case (Inr page)
    show ?thesis
    proof (cases "fold_err step page acc")
      case (Inl e)
      with body Inr have "y = (offs @ [off], Inl e)" by simp
      with Inl Inr show ?thesis by (intro stop0) (simp_all add: pagination_outcome_0)
    next
      case acc1: (Inr acc1)
      show ?thesis
      proof (cases "int (length page) < limit")
        case True
        with body Inr acc1 have "y = (offs @ [off], Inr acc1)" by simp
        with True Inr acc1 show ?thesis by (intro stop0) (simp_all add: pagination_outcome_0)
      next
        case False
        with body Inr acc1 have "f query limit step (off + limit) (offs @ [off]) acc1 = Some y"
          by simp
        from IH[OF this] obtain k where
          k: "list_all (\<lambda>j. ?o (off + limit) acc1 j = None) [0..<k]"
            "?o (off + limit) acc1 k = Some (snd y)"
            "fst y = (offs @ [off]) @ map ((+) (off + limit)) (page_offsets limit k)"
          unfolding loop_run_def by blast
        note shift = pagination_outcome_Suc[of query off page step acc acc1 limit, OF Inr acc1]
        have first: "?o off acc 0 = None"
          using Inr acc1 False by (simp add: pagination_outcome_0)
        show ?thesis
          unfolding loop_run_def
        proof (intro exI[of _ "Suc k"] conjI)
          show "list_all (\<lambda>j. ?o off acc j = None) [0..<Suc k]"
            unfolding list_all_upt_Suc_shift shift using first k(1) by simp
          show "?o off acc (Suc k) = Some (snd y)"
            unfolding shift by (rule k(2))
          show "fst y = offs @ map ((+) off) (page_offsets limit (Suc k))"
            using k(3) by (simp add: page_offsets_Suc)
        qed
      qed
    qed
  qed
qed

lemma graph_query_loop_returns:
  assumes "case query (off + int k * limit) of Inl e \<Rightarrow> True | Inr page \<Rightarrow> int (length page) < limit"
  shows "\<exists>r. graph_query_loop query limit step off offs acc = Some r"
  using assms
proof (induction k arbitrary: off offs acc)
  case 0
  then show ?case
    by (subst graph_query_loop.simps) (auto split: sum.splits)
next
  case (Suc k)
  from Suc.prems have "case query ((off + limit) + int k * limit) of Inl e \<Rightarrow> True | Inr page \<Rightarrow> int (length page) < limit"
    by (simp only: shift_offset)
  from Suc.IH[OF this] show ?case
    by (subst graph_query_loop.simps) (auto split: sum.splits)
qed

lemma map_add_zero: "map ((+) (0::int)) xs = xs"
  by (induction xs) auto

lemma pagination_outcome_handle:
  assumes h: "\<And>rs. handle rs =
                (case fold_err step rs init of Inl e \<Rightarrow> Inl e | Inr acc \<Rightarrow> Inr (fin acc))"
  shows "pagination_outcome query limit handle k =
     (case pagination_outcome query limit (\<lambda>rs. fold_err step rs init) k of
        None \<Rightarrow> None
      | Some (Inl e) \<Rightarrow> Some (Inl e)
      | Some (Inr acc) \<Rightarrow> Some (Inr (fin acc)))"
  unfolding pagination_outcome_def h by (auto split: sum.splits)

lemma short_page_pagination_loop:
  assumes h: "\<And>rs. handle rs =
                (case fold_err step rs init of Inl e \<Rightarrow> Inl e | Inr acc \<Rightarrow> Inr (fin acc))"
  shows "short_page_pagination
     (case graph_query_loop query limit step 0 [] init of
        None \<Rightarrow> None
      | Some (offsets, Inl e) \<Rightarrow> Some (offsets, Inl e)
      | Some (offsets, Inr st) \<Rightarrow> Some (offsets, Inr (fin st)))
     query limit handle"
proof -
  let ?loop = "graph_query_loop query limit step 0 [] init"
  let ?result = "case ?loop of
        None \<Rightarrow> None
      | Some (offsets, Inl e) \<Rightarrow> Some (offsets, Inl e)
      | Some (offsets, Inr st) \<Rightarrow> Some (offsets, Inr (fin st))"
  let ?f = "pagination_outcome query limit (\<lambda>rs. fold_err step rs init)"
  let ?h = "pagination_outcome query limit handle"
  note oh = pagination_outcome_handle[where handle = handle and step = step and init = init
      and fin = fin and query = query and limit = limit, OF h]
  have none: "?h j = None \<longleftrightarrow> ?f j = None" for j
    unfolding oh by (auto split: option.splits sum.splits)
  have c1: "?result = Some (page_offsets limit k, out)"
    if a: "list_all (\<lambda>j. ?h j = None) [0..<k]" "?h k = Some out" for k out
  proof -
    from a(1) have before: "list_all (\<lambda>j. pagination_outcome (\<lambda>o'. query (0 + o')) limit
                            (\<lambda>rs. fold_err step rs init) j = None) [0..<k]"
      by (simp add: none)
    from a(2) obtain out0 where out0: "?f k = Some out0"
      and out: "out = (case out0 of Inl e \<Rightarrow> Inl e | Inr acc \<Rightarrow> Inr (fin acc))"
      unfolding oh by (auto split: option.splits sum.splits)
    from out0 have "pagination_outcome (\<lambda>o'. query (0 + o')) limit
                            (\<lambda>rs. fold_err step rs init) k = Some out0" by simp
    from graph_query_loop_first_stop[OF before this, of "[]"]
    have "?loop = Some (page_offsets limit k, out0)" by (simp add: map_add_zero)
    with out show ?thesis by (auto split: sum.splits)
  qed
  have c2: "\<exists>k. list_all (\<lambda>j. ?h j = None) [0..<k] \<and> ?h k = Some out
               \<and> offs = page_offsets limit k"
    if a: "?result = Some (offs, out)" for offs out
  proof -
    from a obtain out0 where loop: "?loop = Some (offs, out0)"
      and out: "out = (case out0 of Inl e \<Rightarrow> Inl e | Inr acc \<Rightarrow> Inr (fin acc))"
      by (auto split: option.splits sum.splits prod.splits)
    from graph_query_loop_run[OF loop] obtain k where
      k: "list_all (\<lambda>j. ?f j = None) [0..<k]" "?f k = Some out0" "offs = page_offsets limit k"
      unfolding loop_run_def by (auto simp: map_add_zero)
    from k(1) have "list_all (\<lambda>j. ?h j = None) [0..<k]" by (simp add: none)
    moreover from k(2) out have "?h k = Some out"
      unfolding oh by (auto split: sum.splits)
    ultimately show ?thesis using k(3) by blast
  qed
  have c3: "?result \<noteq> None" if "\<exists>k. first_short_page query limit k"
  proof -
    from that obtain k where "first_short_page query limit k" ..
    then have "case query (0 + int k * limit) of
                 Inl e \<Rightarrow> True
               | Inr page \<Rightarrow> int (length page) < limit"
      by (auto simp: first_short_page_def split: sum.splits)
    from graph_query_loop_returns[where query = query and off = 0 and k = k and limit = limit
        and step = step and offs = "[]" and acc = init, OF this]
    show ?thesis by (auto split: option.splits sum.splits prod.splits)
  qed
  have c4: "?result = None" if a: "\<forall>k. ?h k = None"
  proof -
    have "?loop = None"
    proof (rule ccontr)
      assume "?loop \<noteq> None"
      then obtain y where "?loop = Some y" by auto
      from graph_query_loop_run[OF this] obtain k where "?f k = Some (snd y)"
        unfolding loop_run_def by auto
      with a none[of k] show False by simp
    qed
    then show ?thesis by simp
  qed
  show ?thesis
    unfolding short_page_pagination_def using c1 c2 c3 c4 by blast
qed

text \<open>The loop bodies against the results stated record by record.\<close>

lemma fold_price_step:
  "fold_err price_step rs m =
     Inr (m ++ map_of (rev (map (\<lambda>tdd. (tdd_token_id tdd, tdd_priceUSD tdd)) rs)))"
proof (induction rs arbitrary: m)
  case Nil
  show ?case by simp
next
  case (Cons r rs)
  have "price_step m r = Inr (m(tdd_token_id r \<mapsto> tdd_priceUSD r))"
    by (simp add: price_step_def)
  then have "fold_err price_step (r # rs) m
      = fold_err price_step rs (m(tdd_token_id r \<mapsto> tdd_priceUSD r))"
    by simp
  also have "\<dots> = Inr (m(tdd_token_id r \<mapsto> tdd_priceUSD r)
      ++ map_of (rev (map (\<lambda>tdd. (tdd_token_id tdd, tdd_priceUSD tdd)) rs)))"
    by (rule Cons.IH)
  also have "m(tdd_token_id r \<mapsto> tdd_priceUSD r)
      ++ map_of (rev (map (\<lambda>tdd. (tdd_token_id tdd, tdd_priceUSD tdd)) rs))
    = m ++ map_of (rev (map (\<lambda>tdd. (tdd_token_id tdd, tdd_priceUSD tdd)) (r # rs)))"
    by (auto simp: map_add_def fun_eq_iff split: option.splits)
  finally show ?case .
qed

lemma price_records_fold:
  "price_records_result rs =
     (case fold_err price_step rs Map.empty of Inl e \<Rightarrow> Inl e | Inr acc \<Rightarrow> Inr (id acc))"
  by (simp add: fold_price_step price_records_result_def)

lemma fold_trades_step:
  "fold_err (trades_step addr) rs trades =
     (case trades_records_result addr rs of Inl e \<Rightarrow> Inl e | Inr ts \<Rightarrow> Inr (trades @ ts))"
proof (induction rs arbitrary: trades)
  case Nil
  show ?case by (simp add: trades_records_result_def)
next
  case (Cons entry rs)
  show ?case
  proof (cases "u_tx_swaps_to_trades (map (to_amm_swap addr) entry)")
    case (Inl e)
    then show ?thesis by (simp add: trades_step_def trades_records_result_def)
  next
    case (Inr ts)
    then show ?thesis
      using Cons.IH[of "trades @ ts"]
      by (auto simp: trades_step_def trades_records_result_def split: option.splits)
  qed
qed

lemma trades_records_fold:
  "trades_records_result addr rs =
     (case fold_err (trades_step addr) rs [] of Inl e \<Rightarrow> Inl e | Inr acc \<Rightarrow> Inr (id acc))"
  by (simp add: fold_trades_step split: sum.splits)

lemma balances_step_eq:
  "balances_step (bal, kn, un) lp =
     (if lp_pair_totalSupply lp = 0
      then Inl (if lp_liquidityTokenBalance lp = 0 then InvalidOperation else DivisionByZero)
      else Inr (bal(lp_user_id lp \<mapsto>
                  (case bal (lp_user_id lp) of None \<Rightarrow> [] | Some pools \<Rightarrow> pools)
                  @ [position_pool lp]),
                kn \<union> set (token_known (lp_pair_token0 lp) @ token_known (lp_pair_token1 lp)),
                un \<union> set (token_unknown (lp_pair_token0 lp)
                            @ token_unknown (lp_pair_token1 lp))))"
  by (cases "lp_pair_token0 lp"; cases "lp_pair_token1 lp")
     (auto simp: balances_step_def pool_asset_step_def fval_div_def Let_def position_pool_def
        position_asset_def token_known_def token_unknown_def ZERO_def)

lemma fold_balances_step:
  "fold_err balances_step rs (bal, kn, un) =
     (case find (\<lambda>lp. lp_pair_totalSupply lp = 0) rs of
        Some lp \<Rightarrow>
          Inl (if lp_liquidityTokenBalance lp = 0 then InvalidOperation else DivisionByZero)
      | None \<Rightarrow>
          Inr (\<lambda>user. if user \<in> lp_user_id ` set rs
                       then Some ((case bal user of None \<Rightarrow> [] | Some pools \<Rightarrow> pools)
                                  @ map position_pool (filter (\<lambda>lp. lp_user_id lp = user) rs))
                       else bal user,
               kn \<union> set (concat (map (\<lambda>lp. token_known (lp_pair_token0 lp)
                                         @ token_known (lp_pair_token1 lp)) rs)),
               un \<union> set (concat (map (\<lambda>lp. token_unknown (lp_pair_token0 lp)
                                         @ token_unknown (lp_pair_token1 lp)) rs))))"
proof (induction rs arbitrary: bal kn un)
  case Nil
  show ?case by simp
next
  case (Cons lp rs)
  show ?case
  proof (cases "lp_pair_totalSupply lp = 0")
    case True
    then show ?thesis by (simp add: balances_step_eq)
  next
    case False
    then show ?thesis
      by (simp add: balances_step_eq Cons.IH split: option.splits)
         (auto simp: fun_eq_iff filter_empty_conv image_iff split: option.splits)
  qed
qed

lemma balances_records_fold:
  "balances_records_result rs =
     (case fold_err balances_step rs (Map.empty, {}, {}) of
        Inl e \<Rightarrow> Inl e
      | Inr acc \<Rightarrow> Inr (to_protocol_balance acc))"
  by (auto simp: fold_balances_step balances_records_result_def to_protocol_balance_def
      fun_eq_iff split: option.splits)

lemma pagination_result_id: "(case r of None \<Rightarrow> None
      | Some (offsets, Inl e) \<Rightarrow> Some (offsets, Inl e)
      | Some (offsets, Inr st) \<Rightarrow> Some (offsets, Inr (id st))) = r"
  by (auto split: option.splits sum.splits prod.splits)

lemma example_swaps_trades:
  "trades_records_result ''0xuser''
     [[example_graph_swap ''0xa-0'' 100 0 0 40], [example_graph_swap ''0xb-0'' 0 8 2 0]]
   = Inr [\<lparr>trade_type = BUY, base_asset = example_token1, quote_asset = example_token0,
           amount = 40, rate = 2 / 5,
           swaps = [to_amm_swap ''0xuser'' (example_graph_swap ''0xa-0'' 100 0 0 40)],
           trade_index = 0\<rparr>,
          \<lparr>trade_type = BUY, base_asset = example_token0, quote_asset = example_token1,
           amount = 2, rate = 1 / 4,
           swaps = [to_amm_swap ''0xuser'' (example_graph_swap ''0xb-0'' 0 8 2 0)],
           trade_index = 0\<rparr>]"
  "trades_records_result ''0xuser''
     [[example_graph_swap ''0xa-0'' 100 0 0 40], [example_graph_swap ''0xb-0'' 0 8 2 0],
      [example_graph_swap ''0xc-0'' 3 0 0 9]]
   = Inr [\<lparr>trade_type = BUY, base_asset = example_token1, quote_asset = example_token0,
           amount = 40, rate = 2 / 5,
           swaps = [to_amm_swap ''0xuser'' (example_graph_swap ''0xa-0'' 100 0 0 40)],
           trade_index = 0\<rparr>,
          \<lparr>trade_type = BUY, base_asset = example_token0, quote_asset = example_token1,
           amount = 2, rate = 1 / 4,
           swaps = [to_amm_swap ''0xuser'' (example_graph_swap ''0xb-0'' 0 8 2 0)],
           trade_index = 0\<rparr>,
          \<lparr>trade_type = BUY, base_asset = example_token1, quote_asset = example_token0,
           amount = 9, rate = 3,
           swaps = [to_amm_swap ''0xuser'' (example_graph_swap ''0xc-0'' 3 0 0 9)],
           trade_index = 0\<rparr>]"
  by (simp_all add: trades_records_result_def tx_defs to_amm_swap_def example_graph_swap_def)

lemma example_positions_balances:
  "balances_records_result [example_position ''0xpool1'' 1, example_position ''0xpool2'' 2]
     = Inr \<lparr>address_balances =
              (\<lambda>user. if user = ''0xuser''
                       then Some [position_pool (example_position ''0xpool1'' 1),
                                  position_pool (example_position ''0xpool2'' 2)]
                       else None),
            known_assets = {example_dai}, unknown_assets =
              {\<lparr>unk_ethereum_address = ''0xfoo'', unk_symbol = ''FOO'', unk_name = ''Foo'',
                unk_decimals = 18\<rparr>}\<rparr>"
  "balances_records_result [example_position ''0xpool1'' 1, example_position ''0xpool2'' 2,
       example_position ''0xpool3'' 5]
     = Inr \<lparr>address_balances =
              (\<lambda>user. if user = ''0xuser''
                       then Some [position_pool (example_position ''0xpool1'' 1),
                                  position_pool (example_position ''0xpool2'' 2),
                                  position_pool (example_position ''0xpool3'' 5)]
                       else None),
            known_assets = {example_dai}, unknown_assets =
              {\<lparr>unk_ethereum_address = ''0xfoo'', unk_symbol = ''FOO'', unk_name = ''Foo'',
                unk_decimals = 18\<rparr>}\<rparr>"
  by (auto simp: balances_records_result_def example_position_def token_known_def
      token_unknown_def example_token0_def example_token1_def example_dai_def fun_eq_iff)

lemma trades_records_result_Inr:
  assumes "\<forall>entry \<in> set rs. \<not> isl (u_tx_swaps_to_trades (map (to_amm_swap addr) entry))"
  shows "\<exists>ts. trades_records_result addr rs = Inr ts"
  using assms
  by (auto simp: trades_records_result_def find_Some_iff split: option.splits)

lemma balances_records_result_Inr:
  assumes "\<forall>lp \<in> set rs. lp_pair_totalSupply lp \<noteq> 0"
  shows "\<exists>pb. balances_records_result rs = Inr pb"
  using assms
  by (auto simp: balances_records_result_def find_Some_iff split: option.splits)

lemma example_endless_prices:
  "pagination_outcome (\<lambda>offset. example_endless_price_feed 2 offset ids today) 2
     price_records_result k = None"
  by (simp add: pagination_outcome_def example_endless_price_feed_def price_records_result_def)

lemma example_endless_trades:
  "pagination_outcome (\<lambda>offset. example_endless_swaps_graph 2 offset a s e) 2
     (trades_records_result ''0xuser'') k = None"
proof -
  let ?q = "\<lambda>offset. example_endless_swaps_graph 2 offset a s e"
  have "\<forall>entry \<in> set (fetched_records ?q 2 k).
          \<not> isl (u_tx_swaps_to_trades (map (to_amm_swap ''0xuser'') entry))"
    by (auto simp: fetched_records_def example_endless_swaps_graph_def tx_defs
        to_amm_swap_def example_graph_swap_def simp del: upt_Suc)
  from trades_records_result_Inr[OF this] obtain ts where
    "trades_records_result ''0xuser'' (fetched_records ?q 2 k) = Inr ts" ..
  then show ?thesis
    by (simp add: pagination_outcome_def) (simp add: example_endless_swaps_graph_def)
qed

lemma example_endless_balances:
  "pagination_outcome (\<lambda>offset. example_endless_positions_graph 2 offset as) 2
     balances_records_result k = None"
proof -
  let ?q = "\<lambda>offset. example_endless_positions_graph 2 offset as"
  have "\<forall>lp \<in> set (fetched_records ?q 2 k). lp_pair_totalSupply lp \<noteq> 0"
    by (auto simp: fetched_records_def example_endless_positions_graph_def
        example_position_def simp del: upt_Suc)
  from balances_records_result_Inr[OF this] obtain pb where
    "balances_records_result (fetched_records ?q 2 k) = Inr pb" ..
  then show ?thesis
    by (simp add: pagination_outcome_def) (simp add: example_endless_positions_graph_def)
qed

text \<open>
  C7: each of the three pagination loops (\<^verbatim>\<open>_get_balances_graph\<close>,
  \<^verbatim>\<open>_get_trades_graph_for_address\<close>, \<^verbatim>\<open>_get_unknown_asset_price_graph\<close>) is a
  short-page pagination over its query. The offset starts at 0 and grows by the page
  size after each fetch. The loop returns at the first pass that does not go on, and
  it returns normally exactly when the page of that pass has fewer records than the
  page size; the result is then built from every record of every fetched page: the
  pools of all fetched positions with their known and unknown tokens, the trades of
  all fetched transactions in order, the price of the last record of each token. When
  the source has a first short page the loop returns, and when every pass goes on it
  does not return. An exception of a query or of a record ends the loop at that pass.
\<close>

theorem short_page_pagination_loops:
  "short_page_pagination (u_get_balances_graph addresses balances_query limit)
     (\<lambda>offset. balances_query limit offset (map str_lower addresses))
     limit balances_records_result
   \<and> short_page_pagination
       (u_get_trades_graph_for_address swaps_query limit addr start_ts end_ts)
       (\<lambda>offset. swaps_query limit offset (str_lower addr) start_ts end_ts)
       limit (trades_records_result addr)
   \<and> short_page_pagination
       (u_get_unknown_asset_price_graph unknown price_feed today_epoch limit)
       (\<lambda>offset. price_feed limit offset
                    (map str_lower (map unk_ethereum_address unknown)) today_epoch)
       limit price_records_result"
proof (intro conjI)
  show "short_page_pagination (u_get_balances_graph addresses balances_query limit)
     (\<lambda>offset. balances_query limit offset (map str_lower addresses))
     limit balances_records_result"
    unfolding u_get_balances_graph_def Let_def
    by (rule short_page_pagination_loop[OF balances_records_fold])
  show "short_page_pagination
       (u_get_trades_graph_for_address swaps_query limit addr start_ts end_ts)
       (\<lambda>offset. swaps_query limit offset (str_lower addr) start_ts end_ts)
       limit (trades_records_result addr)"
    unfolding u_get_trades_graph_for_address_def
    using short_page_pagination_loop[OF trades_records_fold] unfolding pagination_result_id .
  show "short_page_pagination
       (u_get_unknown_asset_price_graph unknown price_feed today_epoch limit)
       (\<lambda>offset. price_feed limit offset
                    (map str_lower (map unk_ethereum_address unknown)) today_epoch)
       limit price_records_result"
    unfolding u_get_unknown_asset_price_graph_def Let_def
    using short_page_pagination_loop[OF price_records_fold] unfolding pagination_result_id .
qed

theorem short_page_pagination_loops_witness:
  "u_get_unknown_asset_price_graph [] example_price_feed 0 2
     = Some ([0, 2], Inr [''0xfoo'' \<mapsto> 1 / 2, ''0xbar'' \<mapsto> 3, ''0xbaz'' \<mapsto> 7])
   \<and> map_option (\<lambda>r. (fst r, map (\<lambda>t. (amount t, rate t)) (projr (snd r))))
        (u_get_trades_graph_for_address example_swaps_graph 2 ''0xuser'' 0 100)
     = Some ([0, 2], [(40, 2 / 5), (2, 1 / 4), (9, 3)])
   \<and> map_option (\<lambda>r. (fst r,
                        map_option (map (\<lambda>p. (pool_address p,
                                      map (\<lambda>a. balance_amount (user_balance a)) (assets p))))
                          (address_balances (projr (snd r)) ''0xuser'')))
        (u_get_balances_graph [''0xUSER''] example_positions_graph 2)
     = Some ([0, 2], Some [(''0xpool1'', [10, 5]), (''0xpool2'', [20, 10]),
                           (''0xpool3'', [50, 25])])
   \<and> u_get_unknown_asset_price_graph [] example_endless_price_feed 0 2 = None
   \<and> u_get_trades_graph_for_address example_endless_swaps_graph 2 ''0xuser'' 0 100 = None
   \<and> u_get_balances_graph [''0xUSER''] example_endless_positions_graph 2 = None"
proof -
  note endless = short_page_pagination_loops[where limit = 2
      and unknown = "[]" and price_feed = example_endless_price_feed and today_epoch = 0
      and swaps_query = example_endless_swaps_graph and addr = "''0xuser''" and start_ts = 0
      and end_ts = 100
      and addresses = "[''0xUSER'']" and balances_query = example_endless_positions_graph,
      unfolded short_page_pagination_def]
  let ?epq = "\<lambda>offset. example_endless_price_feed 2 offset
               (map str_lower (map unk_ethereum_address ([] :: UnknownEthereumToken list))) 0"
  have "\<forall>k. pagination_outcome ?epq 2 price_records_result k = None"
    by (simp add: example_endless_prices)
  with endless have endless_prices:
    "u_get_unknown_asset_price_graph [] example_endless_price_feed 0 2 = None"
    by blast
  have "\<forall>k. pagination_outcome
           (\<lambda>offset. example_endless_swaps_graph 2 offset (str_lower ''0xuser'') 0 100) 2
           (trades_records_result ''0xuser'') k = None"
    by (simp add: example_endless_trades)
  with endless have endless_trades:
    "u_get_trades_graph_for_address example_endless_swaps_graph 2 ''0xuser'' 0 100 = None"
    by blast
  have "\<forall>k. pagination_outcome
           (\<lambda>offset. example_endless_positions_graph 2 offset (map str_lower [''0xUSER''])) 2
           balances_records_result k = None"
    by (simp add: example_endless_balances)
  with endless have endless_balances:
    "u_get_balances_graph [''0xUSER''] example_endless_positions_graph 2 = None"
    by blast
  note loops = short_page_pagination_loops[where limit = 2
      and unknown = "[]" and price_feed = example_price_feed and today_epoch = 0
      and swaps_query = example_swaps_graph and addr = "''0xuser''" and start_ts = 0
      and end_ts = 100
      and addresses = "[''0xUSER'']" and balances_query = example_positions_graph,
      unfolded short_page_pagination_def]
  let ?pq = "\<lambda>offset. example_price_feed 2 offset
               (map str_lower (map unk_ethereum_address ([] :: UnknownEthereumToken list))) 0"
  have "list_all (\<lambda>j. pagination_outcome ?pq 2 price_records_result j = None) [0..<1]
      \<and> pagination_outcome ?pq 2 price_records_result 1
          = Some (Inr [''0xfoo'' \<mapsto> 1 / 2, ''0xbar'' \<mapsto> 3, ''0xbaz'' \<mapsto> 7])"
    by (simp add: pagination_outcome_def fetched_records_def example_price_feed_def
        price_records_result_def)
  with loops have prices: "u_get_unknown_asset_price_graph [] example_price_feed 0 2
     = Some (page_offsets 2 1, Inr [''0xfoo'' \<mapsto> 1 / 2, ''0xbar'' \<mapsto> 3, ''0xbaz'' \<mapsto> 7])"
    by blast
  let ?sq = "\<lambda>offset. example_swaps_graph 2 offset (str_lower ''0xuser'') 0 100"
  have "list_all (\<lambda>j. pagination_outcome ?sq 2 (trades_records_result ''0xuser'') j = None)
          [0..<1]
      \<and> pagination_outcome ?sq 2 (trades_records_result ''0xuser'') 1
          = Some (trades_records_result ''0xuser''
     [[example_graph_swap ''0xa-0'' 100 0 0 40], [example_graph_swap ''0xb-0'' 0 8 2 0],
      [example_graph_swap ''0xc-0'' 3 0 0 9]])"
    by (simp add: pagination_outcome_def fetched_records_def example_swaps_graph_def
        example_swaps_trades)
  with loops have trades: "u_get_trades_graph_for_address example_swaps_graph 2 ''0xuser'' 0 100
     = Some (page_offsets 2 1, trades_records_result ''0xuser''
     [[example_graph_swap ''0xa-0'' 100 0 0 40], [example_graph_swap ''0xb-0'' 0 8 2 0],
      [example_graph_swap ''0xc-0'' 3 0 0 9]])"
    by blast
  let ?bq = "\<lambda>offset. example_positions_graph 2 offset (map str_lower [''0xUSER''])"
  have "list_all (\<lambda>j. pagination_outcome ?bq 2 balances_records_result j = None) [0..<1]
      \<and> pagination_outcome ?bq 2 balances_records_result 1
          = Some (balances_records_result
               [example_position ''0xpool1'' 1, example_position ''0xpool2'' 2,
                example_position ''0xpool3'' 5])"
    by (simp add: pagination_outcome_def fetched_records_def example_positions_graph_def
        example_positions_balances)
  with loops have balances: "u_get_balances_graph [''0xUSER''] example_positions_graph 2
     = Some (page_offsets 2 1, balances_records_result
               [example_position ''0xpool1'' 1, example_position ''0xpool2'' 2,
                example_position ''0xpool3'' 5])"
    by blast
  show ?thesis
    unfolding prices trades balances endless_prices endless_trades endless_balances
      example_swaps_trades example_positions_balances
    by (simp add: page_offsets_def position_pool_def position_asset_def example_position_def)
qed

section \<open>Properties of the sync ranges\<close>

lemma empty_graph_for_address:
  "u_get_trades_graph_for_address example_empty_graph 2 a s e = Some ([0], Inr [])"
  unfolding u_get_trades_graph_for_address_def
  by (subst graph_query_loop.simps) (simp add: example_empty_graph_def)

lemma empty_graph_trades_loop:
  "get_trades_graph_loop example_empty_graph 2 as s e m = Some (Inr m)"
  by (induction as arbitrary: m) (simp_all add: empty_graph_for_address)

lemma empty_graph_trades: "u_get_trades_graph example_empty_graph 2 as s e = Some (Inr Map.empty)"
  by (simp add: u_get_trades_graph_def empty_graph_trades_loop)

lemma example_db_call: "u_get_trades example_empty_graph 2 example_db [''0xuser''] 0 50 =
   Some (\<lparr>used_query_ranges = [entry_name ''0xuser'' \<mapsto> (50, 50)], amm_swaps = []\<rparr>,
         [([''0xuser''], 50, 50)], Inr Map.empty)"
  by (simp add: u_get_trades_def example_db_def get_used_query_range_def empty_graph_trades
     update_used_query_range_def all_fetched_swaps_def add_amm_swaps_def get_amm_swaps_def
     swaps_to_trades_def swaps_to_trades_via_def)

lemma partition_addresses_result:
  "partition_addresses db addrs new ex m = (new', ex', m') \<Longrightarrow>
     new' = new @ filter (\<lambda>a. get_used_query_range db (entry_name a) = None) addrs
     \<and> ex' = ex @ filter (\<lambda>a. get_used_query_range db (entry_name a) \<noteq> None) addrs
     \<and> m' \<le> m
     \<and> (\<forall>a \<in> set addrs. \<forall>s e. get_used_query_range db (entry_name a) = Some (s, e)
            \<longrightarrow> m' \<le> e)
     \<and> (m' = m \<or> (\<exists>a \<in> set addrs. \<exists>s e. get_used_query_range db (entry_name a) = Some (s, e)
                      \<and> m' = e))"
proof (induction addrs arbitrary: new ex m)
  case Nil
  then show ?case by simp
next
  case (Cons a addrs)
  show ?case
  proof (cases "get_used_query_range db (entry_name a)")
    case None
    with Cons.prems have "partition_addresses db addrs (new @ [a]) ex m = (new', ex', m')"
      by simp
    from Cons.IH[OF this] None show ?thesis by auto
  next
    case (Some r)
    with Cons.prems have
      "partition_addresses db addrs new (ex @ [a]) (min m (snd r)) = (new', ex', m')"
      by simp
    from Cons.IH[OF this] Some show ?thesis
      by (cases r) (auto simp: min_def split: if_splits)
  qed
qed

lemma update_ranges_ranges:
  "used_query_ranges (update_ranges db as s e) n =
     (if n \<in> entry_name ` set as then Some (s, e) else used_query_ranges db n)"
  by (induction as arbitrary: db) (auto simp: update_used_query_range_def)

lemma add_amm_swaps_ranges: "used_query_ranges (add_amm_swaps db sws) = used_query_ranges db"
  by (simp add: add_amm_swaps_def)


lemma u_get_trades_ranges:
  assumes "u_get_trades g limit db addrs from_ts to_ts = Some (db', fs, out)"
  shows "used_query_ranges db' n = used_query_ranges db n
         \<or> (\<exists>s. used_query_ranges db' n = Some (s, to_ts))"
proof -
  obtain new ex m where p: "partition_addresses db addrs [] [] to_ts = (new, ex, m)"
    by (cases "partition_addresses db addrs [] [] to_ts") auto
  from assms show ?thesis
    unfolding u_get_trades_def p Let_def
    by (auto simp: update_ranges_ranges add_amm_swaps_ranges
        split: if_splits option.splits sum.splits prod.splits)
qed

lemma get_trades_calls_length:
  "get_trades_calls limit db calls = Some dbs \<Longrightarrow> length dbs = length calls"
  by (induction calls arbitrary: db dbs) (auto split: option.splits prod.splits)

lemma u_get_trades_step:
  assumes run: "u_get_trades g limit db addrs from_ts to_ts = Some (db', fs, out)"
    and bounded: "\<forall>n s e. used_query_ranges db n = Some (s, e) \<longrightarrow> e \<le> to_ts"
  shows "(\<forall>s e. used_query_ranges db n = Some (s, e) \<longrightarrow>
            (\<exists>s' e'. used_query_ranges db' n = Some (s', e') \<and> e \<le> e'))
    \<and> (\<forall>s e. used_query_ranges db' n = Some (s, e) \<longrightarrow> e \<le> to_ts)
    \<and> (used_query_ranges db' n \<noteq> used_query_ranges db n \<longrightarrow>
          (\<exists>s. used_query_ranges db' n = Some (s, to_ts)))"
  using u_get_trades_ranges[OF run, of n] bounded by (metis order_refl prod.inject option.inject)

lemma example_calls_run:
  "get_trades_calls 2 example_empty_db example_calls =
     Some [\<lparr>used_query_ranges = [entry_name ''0xuser'' \<mapsto> (0, 50)], amm_swaps = []\<rparr>,
           \<lparr>used_query_ranges = [entry_name ''0xuser'' \<mapsto> (50, 80)], amm_swaps = []\<rparr>]"
  by (simp add: example_calls_def u_get_trades_def example_empty_db_def get_used_query_range_def
     empty_graph_trades update_used_query_range_def all_fetched_swaps_def add_amm_swaps_def
     get_amm_swaps_def swaps_to_trades_def swaps_to_trades_via_def)

text \<open>
  C5: take a sequence of calls of \<^verbatim>\<open>_get_trades\<close> with non-decreasing
  \<^verbatim>\<open>to_timestamp\<close>, on a range store in which no recorded end exceeds the first
  \<^verbatim>\<open>to_timestamp\<close> (an empty store in particular). Then for every address and every
  call of the sequence: a range recorded before the call is still recorded after it,
  with an end that is not smaller; the end recorded after the call does not exceed the
  \<^verbatim>\<open>to_timestamp\<close> of the call; and when the call changes the entry, the new end is
  the \<^verbatim>\<open>to_timestamp\<close> of the call (in both batches).
\<close>

theorem range_monotonicity:
  assumes "get_trades_calls limit db0 calls = Some dbs"
    and "sorted (map call_to calls)"
    and "\<forall>n s e. used_query_ranges db0 n = Some (s, e) \<longrightarrow> e \<le> call_to (hd calls)"
    and "i < length calls"
  shows "length dbs = length calls
    \<and> (\<forall>s e. used_query_ranges ((db0 # dbs) ! i) (entry_name a) = Some (s, e) \<longrightarrow>
          (\<exists>s' e'. used_query_ranges (dbs ! i) (entry_name a) = Some (s', e') \<and> e \<le> e'))
    \<and> (\<forall>s e. used_query_ranges (dbs ! i) (entry_name a) = Some (s, e) \<longrightarrow>
          e \<le> call_to (calls ! i))
    \<and> (used_query_ranges (dbs ! i) (entry_name a)
          \<noteq> used_query_ranges ((db0 # dbs) ! i) (entry_name a) \<longrightarrow>
          (\<exists>s. used_query_ranges (dbs ! i) (entry_name a) = Some (s, call_to (calls ! i))))"
  using assms
proof (induction calls arbitrary: db0 dbs i)
  case Nil
  then show ?case by simp
next
  case (Cons c cs)
  from Cons.prems(1) obtain db1 fs out dbs' where
    run: "u_get_trades (call_graph c) limit db0 (call_addresses c) (call_from c) (call_to c)
            = Some (db1, fs, out)"
    and rest: "get_trades_calls limit db1 cs = Some dbs'"
    and dbs: "dbs = db1 # dbs'"
    by (auto split: option.splits prod.splits)
  from Cons.prems(3) have bounded:
    "\<forall>n s e. used_query_ranges db0 n = Some (s, e) \<longrightarrow> e \<le> call_to c"
    by simp
  note step = u_get_trades_step[OF run bounded]
  have len: "length dbs = length (c # cs)"
    using get_trades_calls_length[OF Cons.prems(1)] .
  show ?case
  proof (cases i)
    case 0
    with step[of "entry_name a"] len dbs show ?thesis by simp
  next
    case (Suc j)
    with Cons.prems(4) have j: "j < length cs" by simp
    then have cs: "cs \<noteq> []" by auto
    from Cons.prems(2) have sorted: "sorted (map call_to cs)" by simp
    from Cons.prems(2) cs have "call_to c \<le> call_to (hd cs)"
      by (cases cs) auto
    with step have bounded1:
      "\<forall>n s e. used_query_ranges db1 n = Some (s, e) \<longrightarrow> e \<le> call_to (hd cs)"
      by (meson order_trans)
    from Cons.IH[OF rest sorted bounded1 j] Suc dbs len show ?thesis by simp
  qed
qed

theorem range_monotonicity_witness:
  "used_query_ranges
     (the (get_trades_calls 2 example_empty_db example_calls) ! 0) (entry_name ''0xuser'')
     = Some (0, 50)
   \<and> used_query_ranges
     (the (get_trades_calls 2 example_empty_db example_calls) ! 1) (entry_name ''0xuser'')
     = Some (50, 80)"
proof -
  let ?dbs = "[\<lparr>used_query_ranges = [entry_name ''0xuser'' \<mapsto> (0, 50)], amm_swaps = []\<rparr>,
           \<lparr>used_query_ranges = [entry_name ''0xuser'' \<mapsto> (50, 80)], amm_swaps = []\<rparr>]"
  have h: "get_trades_calls 2 example_empty_db example_calls = Some ?dbs"
    "sorted (map call_to example_calls)"
    "\<forall>n s e. used_query_ranges example_empty_db n = Some (s, e) \<longrightarrow>
       e \<le> call_to (hd example_calls)"
    "1 < length example_calls"
    by (simp_all add: example_calls_run) (simp_all add: example_calls_def example_empty_db_def)
  from range_monotonicity[OF h, of "''0xuser''"]
  have "\<exists>s' e'. used_query_ranges (?dbs ! 1) (entry_name ''0xuser'') = Some (s', e') \<and> 50 \<le> e'"
    by simp
  then show ?thesis by (simp add: example_calls_run)
qed

text \<open>
  The guard \<^verbatim>\<open>min_end_ts <= to_timestamp\<close> before the fetch for the existing
  addresses can never fail: \<^verbatim>\<open>min_end_ts\<close> starts at \<^verbatim>\<open>to_timestamp\<close> and is only
  lowered.
\<close>

lemma min_end_ts_le_to_timestamp:
  "partition_addresses db addresses [] [] to_ts = (new, ex, m) \<Longrightarrow> m \<le> to_ts"
  by (drule partition_addresses_result) simp

text \<open>
  C6: when \<^verbatim>\<open>to_timestamp\<close> is strictly less than the least recorded end of the
  existing addresses, no fetch is to be issued for the existing batch; the comparison
  \<^verbatim>\<open>min_end_ts <= to_timestamp\<close> before the fetch is there for that. The code does
  not do it: with the recorded range \<open>(0, 100)\<close> and \<^verbatim>\<open>to_timestamp = 50\<close> the
  address is existing, \<^verbatim>\<open>min_end_ts\<close> is 50 and not 100, the fetch is issued for the
  window \<open>(50, 50)\<close>, and the recorded range becomes \<open>(50, 50)\<close>.
\<close>

theorem negative_window_guard_failing_input:
  "get_used_query_range example_db (entry_name ''0xuser'') = Some (0, 100)
   \<and> (50 :: int) < 100
   \<and> partition_addresses example_db [''0xuser''] [] [] 50 = ([], [''0xuser''], 50)
   \<and> u_get_trades example_empty_graph 2 example_db [''0xuser''] 0 50 =
       Some (\<lparr>used_query_ranges = [entry_name ''0xuser'' \<mapsto> (50, 50)], amm_swaps = []\<rparr>,
             [([''0xuser''], 50, 50)], Inr Map.empty)"
  by (simp add: example_db_call) (simp add: example_db_def get_used_query_range_def)

end
